theory Spec2Isabelle
  imports Complex_Main
begin

section \<open>The MODPATH basic package writer (flopy/modpath/mpbas.py)\<close>

text \<open>
  The class \<open>ModpathBas\<close> stores its constructor arguments and writes them, in a fixed
  order and with fixed field widths, to one text file. The model below follows the two
  methods of the class, \<open>__init__\<close> and \<open>write_file\<close>, statement by statement. Every
  exception the Python can raise on the way is a value of the type \<open>error\<close>, and the file
  system the method writes to is an explicit state that is returned updated.
\<close>

subsection \<open>Errors and values\<close>

datatype error =
    TypeError           \<comment> \<open>subscripting \<open>None\<close> or an \<open>int\<close>\<close>
  | IndexError          \<comment> \<open>subscripting a sequence out of range\<close>
  | ValueError          \<comment> \<open>a format descriptor that cannot be read, a sequence of the wrong length\<close>
  | AttributeError      \<comment> \<open>reading \<open>laycon\<close>/\<open>laytyp\<close> of a package that has none\<close>
  | UnboundLocalError   \<comment> \<open>reading the local \<open>lc\<close> before any branch assigned it\<close>
  | IOError             \<comment> \<open>\<open>open\<close> refused by the file system\<close>

text \<open>
  A Python \<open>float\<close> is an IEEE double. Every finite double is a rational number, so the
  finite ones are carried as \<open>rat\<close>; the four values that are not rationals have their
  own constructors. A literal such as \<open>0.30\<close> stands for the double nearest to it
  (\<open>py_float\<close> below).
\<close>

datatype pyfloat = Finite rat | NegZero | PosInf | NegInf | NaN

text \<open>The arguments \<open>bud_label\<close> ("str or list of strs", default \<open>None\<close>) and
  \<open>def_iface\<close> ("int or list of ints", default \<open>None\<close>), and \<open>laytyp\<close>
  ("int or list of ints").\<close>

datatype labels = NoLabels | OneLabel string | Labels "string list"

datatype ifaces = NoIfaces | OneIface int | Ifaces "int list"

datatype layer_type = LayInt int | LayList "int list"

text \<open>\<open>self.bud_label[i]\<close> and \<open>self.def_iface[i]\<close>, for the indices \<open>i \<ge> 0\<close> that
  \<open>range\<close> produces. Subscripting a \<open>str\<close> gives the one-character string at that place.\<close>

definition getitem :: "'a list \<Rightarrow> nat \<Rightarrow> error + 'a" where
  "getitem xs i = (if i < length xs then Inr (xs ! i) else Inl IndexError)"

fun bud_label_getitem :: "labels \<Rightarrow> nat \<Rightarrow> error + string" where
  "bud_label_getitem NoLabels i = Inl TypeError"
| "bud_label_getitem (OneLabel s) i =
     (case getitem s i of Inl e \<Rightarrow> Inl e | Inr c \<Rightarrow> Inr [c])"
| "bud_label_getitem (Labels xs) i = getitem xs i"

fun def_iface_getitem :: "ifaces \<Rightarrow> nat \<Rightarrow> error + int" where
  "def_iface_getitem NoIfaces i = Inl TypeError"
| "def_iface_getitem (OneIface c) i = Inl TypeError"
| "def_iface_getitem (Ifaces xs) i = getitem xs i"

subsection \<open>Python's format fields\<close>

definition nl :: string where
  "nl = [CHR 0x0A]"

definition digit_char :: "int \<Rightarrow> char" where
  "digit_char d = ''0123456789'' ! nat d"

text \<open>The decimal numeral of an integer \<open>n \<ge> 0\<close>.\<close>

function digits :: "int \<Rightarrow> string" where
  "digits n = (if n < 10 then [digit_char n] else digits (n div 10) @ [digit_char (n mod 10)])"
  by pat_completeness auto
termination
  by (relation "measure nat") auto

declare digits.simps [simp del]

definition rjust :: "nat \<Rightarrow> string \<Rightarrow> string" where
  "rjust w s = replicate (w - length s) CHR '' '' @ s"

definition ljust :: "nat \<Rightarrow> string \<Rightarrow> string" where
  "ljust w s = s @ replicate (w - length s) CHR '' ''"

text \<open>\<open>'{0:wd}'.format(i)\<close>: the decimal numeral with its sign, right-justified in at
  least \<open>w\<close> columns; a longer numeral is not cut.\<close>

definition format_d :: "nat \<Rightarrow> int \<Rightarrow> string" where
  "format_d w i = rjust w ((if i < 0 then ''-'' else []) @ digits \<bar>i\<bar>)"

text \<open>\<open>'{0:ws}'.format(s)\<close>: the string, left-justified in at least \<open>w\<close> columns.\<close>

definition format_s :: "nat \<Rightarrow> string \<Rightarrow> string" where
  "format_s w s = ljust w s"

text \<open>\<open>'{0:w.pf}'.format(x)\<close>: the value rounded to \<open>p\<close> decimals, ties to even, the
  sign kept also when the rounded value is zero, right-justified in at least \<open>w\<close> columns.\<close>

definition round_half_even :: "rat \<Rightarrow> int" where
  "round_half_even q =
     (let n = \<lfloor>q\<rfloor>; r = q - of_int n
      in if r < 1 / 2 then n else if 1 / 2 < r then n + 1 else if even n then n else n + 1)"

definition fixed_point :: "nat \<Rightarrow> rat \<Rightarrow> string" where
  "fixed_point p q =
     (let m = round_half_even (\<bar>q\<bar> * 10 ^ p);
          frac = digits (m mod 10 ^ p)
      in (if q < 0 then ''-'' else []) @ digits (m div 10 ^ p) @
         (if p = 0 then [] else ''.'' @ replicate (p - length frac) CHR ''0'' @ frac))"

fun format_f :: "nat \<Rightarrow> nat \<Rightarrow> pyfloat \<Rightarrow> string" where
  "format_f w p (Finite q) = rjust w (fixed_point p q)"
| "format_f w p NegZero = rjust w (''-'' @ fixed_point p 0)"
| "format_f w p PosInf = rjust w ''inf''"
| "format_f w p NegInf = rjust w ''-inf''"
| "format_f w p NaN = rjust w ''nan''"

subsection \<open>Element types\<close>

text \<open>
  The constructor passes \<open>np.int32\<close> and \<open>np.float32\<close> as element types (lines 86, 91
  and 93), and \<open>write_file\<close> passes \<open>np.int32\<close> (lines 123, 130 and 136). An element type
  is modelled as the conversion it applies to one value: \<open>np_int32\<close> keeps the low 32
  bits of an integer, read as a signed number, and \<open>np_float32\<close> rounds a double to the
  nearest value with a 24-bit significand, ties to even, with the subnormal range and the
  overflow to infinity of the IEEE single format. \<open>py_float\<close> is the same rounding to
  the double format, which is what a decimal literal of the source denotes.
\<close>

function bit_length :: "int \<Rightarrow> int" where
  "bit_length n = (if n \<le> 0 then 0 else 1 + bit_length (n div 2))"
  by pat_completeness auto
termination
  by (relation "measure nat") auto

declare bit_length.simps [simp del]

definition pow2 :: "int \<Rightarrow> rat" where
  "pow2 e = (if 0 \<le> e then 2 ^ nat e else 1 / 2 ^ nat (- e))"

text \<open>For \<open>q > 0\<close>, the exponent \<open>e\<close> with \<open>2 ^ e \<le> q < 2 ^ (e + 1)\<close>.\<close>

definition floor_log2 :: "rat \<Rightarrow> int" where
  "floor_log2 q =
     (case quotient_of q of (n, d) \<Rightarrow>
        (let e = bit_length n - bit_length d in if pow2 e \<le> q then e else e - 1))"

text \<open>Rounding to a binary format with \<open>prec\<close> significant bits, whose smallest spacing
  is \<open>2 ^ ulp_min\<close> and whose values stay below \<open>2 ^ emax\<close>: the rounded value is
  \<open>m * 2 ^ k\<close>, and it is below \<open>2 ^ emax\<close> when \<open>m\<close> has at most \<open>emax - k\<close> bits.\<close>

definition round_binary :: "nat \<Rightarrow> int \<Rightarrow> int \<Rightarrow> rat \<Rightarrow> pyfloat" where
  "round_binary prec ulp_min emax q =
     (if q = 0 then Finite 0
      else (let k = max (floor_log2 \<bar>q\<bar> - (int prec - 1)) ulp_min;
                m = round_half_even (\<bar>q\<bar> / pow2 k)
            in if emax < bit_length m + k then (if q < 0 then NegInf else PosInf)
               else if m = 0 then (if q < 0 then NegZero else Finite 0)
               else Finite ((if q < 0 then - 1 else 1) * of_int m * pow2 k)))"

definition py_float :: "rat \<Rightarrow> pyfloat" where
  "py_float q = round_binary 53 (- 1074) 1024 q"

fun np_float32 :: "pyfloat \<Rightarrow> pyfloat" where
  "np_float32 (Finite q) = round_binary 24 (- 149) 128 q"
| "np_float32 x = x"

definition np_int32 :: "int \<Rightarrow> int" where
  "np_int32 i = (i + 2 ^ 31) mod 2 ^ 32 - 2 ^ 31"

subsection \<open>The file system\<close>

text \<open>
  The files, by path, with their contents; the paths that have an open handle; the paths
  at which \<open>open\<close> is refused; and the log of what was done to the files, in order.
  \<open>open(path, 'w')\<close> creates the file or empties an existing one at once; \<open>write\<close>
  appends to it; \<open>close\<close> gives the handle back. The buffer between a handle and its file
  is not modelled: the content of a file is the text written to it so far, which is what
  the file holds once the buffer is flushed.
\<close>

datatype event = Opened string | Written string string | Closed string

record world =
  files :: "string \<rightharpoonup> string"
  open_handles :: "string list"
  refused :: "string list"
  log :: "event list"

definition open_w :: "world \<Rightarrow> string \<Rightarrow> error + world" where
  "open_w w p =
     (if p \<in> set (refused w) then Inl IOError
      else Inr (w\<lparr>files := (files w)(p \<mapsto> []), open_handles := p # open_handles w,
                  log := log w @ [Opened p]\<rparr>))"

definition fwrite :: "world \<Rightarrow> string \<Rightarrow> string \<Rightarrow> world" where
  "fwrite w p s =
     w\<lparr>files := (files w)(p \<mapsto> (case files w p of None \<Rightarrow> s | Some c \<Rightarrow> c @ s)),
       log := log w @ [Written p s]\<rparr>"

definition fclose :: "world \<Rightarrow> string \<Rightarrow> world" where
  "fclose w p = w\<lparr>open_handles := remove1 p (open_handles w), log := log w @ [Closed p]\<rparr>"

text \<open>A run of writes to one file, one after the other.\<close>

definition fwrites :: "world \<Rightarrow> string \<Rightarrow> string list \<Rightarrow> world" where
  "fwrites w p ss = foldl (\<lambda>w' s. fwrite w' p s) w ss"

subsection \<open>The array helper for one-dimensional layer arrays\<close>

text \<open>
  Modelled from the spec: the class \<open>Util2d\<close> of \<open>flopy.utils\<close> is not among the sources.
  The spec describes it as a value built "from an existing in-memory sequence", with "an
  overridable output format string (\<open>setFmtin\<close>)", and describes the format \<open>(40I2)\<close> as
  "one value per layer using a 2-character-wide, 40-values-per-line fixed format". It is
  given a shape and an element type: the values are converted to the element type, and
  a sequence that has not one value per layer, that is, whose length is not the shape, is
  refused (the spec names no exception for this; \<open>ValueError\<close> stands for it). The format
  the helper starts with is not described; \<open>write_file\<close> replaces it before use.
\<close>

record util2d =
  u2d_shape :: nat
  u2d_value :: "int list"
  u2d_name :: string
  u2d_locat :: int
  u2d_fmtin :: string

definition Util2d :: "nat \<Rightarrow> (int \<Rightarrow> int) \<Rightarrow> int list \<Rightarrow> string \<Rightarrow> int \<Rightarrow> error + util2d" where
  "Util2d shape dtype v name locat =
     (if length v = shape
      then Inr \<lparr>u2d_shape = shape, u2d_value = map dtype v, u2d_name = name,
                u2d_locat = locat, u2d_fmtin = []\<rparr>
      else Inl ValueError)"

definition set_fmtin :: "util2d \<Rightarrow> string \<Rightarrow> util2d" where
  "set_fmtin u f = u\<lparr>u2d_fmtin := f\<rparr>"

definition is_digit :: "char \<Rightarrow> bool" where
  "is_digit c = (c \<in> set ''0123456789'')"

definition digit_val :: "char \<Rightarrow> nat" where
  "digit_val c = length (takeWhile (\<lambda>d. d \<noteq> c) ''0123456789'')"

definition nat_of_digits :: "string \<Rightarrow> nat" where
  "nat_of_digits s = foldl (\<lambda>a c. 10 * a + digit_val c) 0 s"

text \<open>The descriptor \<open>(nIw)\<close>: \<open>n\<close> integer fields to a line, each \<open>w\<close> columns wide.\<close>

definition fort_2_py :: "string \<Rightarrow> error + nat \<times> nat" where
  "fort_2_py f =
     (let n = takeWhile is_digit (drop 1 f);
          r = dropWhile is_digit (drop 1 f);
          w = takeWhile is_digit (drop 1 r);
          e = dropWhile is_digit (drop 1 r)
      in if take 1 f = ''('' \<and> take 1 r = ''I'' \<and> e = '')'' \<and> n \<noteq> [] \<and> w \<noteq> [] \<and>
            0 < nat_of_digits n
         then Inr (nat_of_digits n, nat_of_digits w) else Inl ValueError)"

text \<open>The values in order, each in its field; a line ends after every \<open>npl\<close>-th value and
  after the last one. \<open>c\<close> counts the values already written.\<close>

fun array2string :: "nat \<Rightarrow> nat \<Rightarrow> nat \<Rightarrow> int list \<Rightarrow> string" where
  "array2string npl wd c [] = []"
| "array2string npl wd c (v # vs) =
     format_d wd v @ (if Suc c mod npl = 0 \<or> vs = [] then nl else []) @
     array2string npl wd (Suc c) vs"

definition util2d_string :: "util2d \<Rightarrow> error + string" where
  "util2d_string u =
     (case fort_2_py (u2d_fmtin u) of
        Inl e \<Rightarrow> Inl e
      | Inr (npl, wd) \<Rightarrow> Inr (array2string npl wd 0 (u2d_value u)))"

subsection \<open>The array helper for grid arrays\<close>

text \<open>
  Modelled from the spec: the class \<open>Util3d\<close> of \<open>flopy.utils\<close> is not among the sources.
  The spec: "given a grid shape, an element type, a fill value or raw array, a name, and a
  unit-number tag, produces a value that can render itself as one or more formatted text
  records (\<open>getFileEntry\<close>)"; "a scalar input broadcasts to fill the full grid shape"; the
  input is "a tagged variant {UniformValue, ExplicitArray} resolved once at construction
  into a concrete dense array"; and "each such array renders its own header/control line
  plus data records; exact layout is a capability of that external helper". The layout
  is therefore a parameter: how a control line and how one element are rendered. Every
  element is converted to the element type the helper is given.
\<close>

datatype 'a array_input = UniformValue 'a | ExplicitArray "'a list list list"

record 'a util3d =
  u3d_shape :: "nat \<times> nat \<times> nat"
  u3d_array :: "'a list list list"
  u3d_name :: string
  u3d_locat :: int

fun Util3d ::
  "nat \<times> nat \<times> nat \<Rightarrow> ('a \<Rightarrow> 'a) \<Rightarrow> 'a array_input \<Rightarrow> string \<Rightarrow> int \<Rightarrow> 'a util3d" where
  "Util3d (nlay, nrow, ncol) dtype (UniformValue v) name locat =
     \<lparr>u3d_shape = (nlay, nrow, ncol),
      u3d_array = replicate nlay (replicate nrow (replicate ncol (dtype v))),
      u3d_name = name, u3d_locat = locat\<rparr>"
| "Util3d (nlay, nrow, ncol) dtype (ExplicitArray a) name locat =
     \<lparr>u3d_shape = (nlay, nrow, ncol), u3d_array = map (map (map dtype)) a,
      u3d_name = name, u3d_locat = locat\<rparr>"

record array_layout =
  control_record :: "string \<Rightarrow> nat \<Rightarrow> int \<Rightarrow> string"
  int_field :: "int \<Rightarrow> string"
  float_field :: "pyfloat \<Rightarrow> string"

definition data_records :: "('a \<Rightarrow> string) \<Rightarrow> 'a list list \<Rightarrow> string" where
  "data_records fld layer = concat (map (\<lambda>row. concat (map fld row) @ nl) layer)"

definition get_file_entry ::
  "(string \<Rightarrow> nat \<Rightarrow> int \<Rightarrow> string) \<Rightarrow> ('a \<Rightarrow> string) \<Rightarrow> 'a util3d \<Rightarrow> string" where
  "get_file_entry ctl fld u =
     concat (map (\<lambda>(k, layer). ctl (u3d_name u) k (u3d_locat u) @ data_records fld layer)
                 (enumerate 0 (u3d_array u)))"

subsection \<open>The MODFLOW model and its packages\<close>

text \<open>
  Modelled from the spec: the models and the flow packages are not among the sources. The
  host model exposes "grid dimensions" and "a package registry (\<open>addPackage\<close>,
  \<open>getPackage(kindTag)\<close>)"; each flow package exposes "a per-layer integer array (layer
  type / layer convertibility code) retrievable as a plain sequence". A package carries
  its own kind tag, and \<open>get_package\<close> returns the first registered package with the tag
  asked for. The BCF package names its array \<open>laycon\<close>, the LPF and UPW packages name
  theirs \<open>laytyp\<close>, as \<open>write_file\<close> reads them.
\<close>

datatype package =
    ModflowBcf "int list"
  | ModflowLpf "int list"
  | ModflowUpw "int list"
  | ModflowDis

fun package_name :: "package \<Rightarrow> string" where
  "package_name (ModflowBcf a) = ''BCF6''"
| "package_name (ModflowLpf a) = ''LPF''"
| "package_name (ModflowUpw a) = ''UPW''"
| "package_name ModflowDis = ''DIS''"

fun laycon_get_value :: "package \<Rightarrow> error + int list" where
  "laycon_get_value (ModflowBcf a) = Inr a"
| "laycon_get_value _ = Inl AttributeError"

fun laytyp_get_value :: "package \<Rightarrow> error + int list" where
  "laytyp_get_value (ModflowLpf a) = Inr a"
| "laytyp_get_value (ModflowUpw a) = Inr a"
| "laytyp_get_value _ = Inl AttributeError"

record modflow =
  nrow :: nat
  ncol :: nat
  nlay :: nat
  nper :: nat
  mf_packages :: "package list"

definition nrow_ncol_nlay_nper :: "modflow \<Rightarrow> nat \<times> nat \<times> nat \<times> nat" where
  "nrow_ncol_nlay_nper m = (nrow m, ncol m, nlay m, nper m)"

definition get_package :: "modflow \<Rightarrow> string \<Rightarrow> package option" where
  "get_package m name = find (\<lambda>p. package_name p = name) (mf_packages m)"

subsection \<open>The package object and its parent\<close>

text \<open>
  The attributes of a \<open>ModpathBas\<close> object. \<open>extension\<close>, \<open>name\<close>, \<open>unit_number\<close> and
  \<open>fn_path\<close> are set by the base class; the others by \<open>__init__\<close> itself. The object's
  back-reference \<open>self.parent\<close> is not a field: the parent is mutable and is read again at
  write time, so \<open>write_file\<close> takes the parent as it is then.
\<close>

record modpath_bas =
  extension :: string
  name :: string
  unit_number :: "int list"
  fn_path :: string
  heading1 :: string
  heading2 :: string
  hnoflo :: pyfloat
  hdry :: pyfloat
  def_face_ct :: int
  bud_label :: labels
  def_iface :: ifaces
  laytyp :: layer_type
  ibound :: "int util3d"
  prsity :: "pyfloat util3d"
  prsityCB :: "pyfloat util3d"

text \<open>The MODPATH model: its base name, the MODFLOW model it tracks (\<open>None\<close> when it was
  built without one) and the packages registered with it.\<close>

record modpath =
  mp_name :: string
  mf :: "modflow option"
  packagelist :: "modpath_bas list"

text \<open>
  Modelled from the spec: the base class \<open>Package\<close> is not among the sources. Its
  constructor keeps the extension, the package name and the unit number (as a
  one-element list, as \<open>self.unit_number[0]\<close> reads it); the spec gives the path: "File
  path = parent model's base name + configured extension".
\<close>

definition Package_init :: "modpath \<Rightarrow> string \<Rightarrow> string \<Rightarrow> int \<Rightarrow> modpath_bas \<Rightarrow> modpath_bas" where
  "Package_init model ext nm unitnumber self =
     self\<lparr>extension := ext, name := nm, unit_number := [unitnumber],
          fn_path := mp_name model @ ''.'' @ ext\<rparr>"

definition add_package :: "modpath \<Rightarrow> modpath_bas \<Rightarrow> modpath" where
  "add_package model p = model\<lparr>packagelist := packagelist model @ [p]\<rparr>"

text \<open>An object before \<open>__init__\<close> has run: no attribute is meaningful yet.\<close>

definition blank :: modpath_bas where
  "blank =
     \<lparr>extension = [], name = [], unit_number = [], fn_path = [], heading1 = [], heading2 = [],
      hnoflo = Finite 0, hdry = Finite 0, def_face_ct = 0, bud_label = NoLabels,
      def_iface = NoIfaces, laytyp = LayInt 0,
      ibound = Util3d (0, 0, 0) np_int32 (ExplicitArray []) [] 0,
      prsity = Util3d (0, 0, 0) np_float32 (ExplicitArray []) [] 0,
      prsityCB = Util3d (0, 0, 0) np_float32 (ExplicitArray []) [] 0\<rparr>"

subsection \<open>The constructor\<close>

text \<open>
  \<open>ModpathBas.__init__\<close>, lines 67 to 95. It reads the grid dimensions from the MODFLOW
  model of the parent (an \<open>AttributeError\<close> when the parent has none), copies its
  arguments, wraps the three grid inputs with their element types (\<open>np.int32\<close> for
  \<open>ibound\<close>, \<open>np.float32\<close> for the two porosities) and registers the object with the
  parent. It
  compares nothing with \<open>def_face_ct\<close>. The result of \<open>get_name_file_entries()\<close> is
  dropped by the source, so the call has no counterpart here.
\<close>

definition ModpathBas_init ::
  "modpath \<Rightarrow> pyfloat \<Rightarrow> pyfloat \<Rightarrow> int \<Rightarrow> labels \<Rightarrow> ifaces \<Rightarrow> layer_type \<Rightarrow>
   int array_input \<Rightarrow> pyfloat array_input \<Rightarrow> pyfloat array_input \<Rightarrow> string \<Rightarrow> int \<Rightarrow>
   error + modpath_bas \<times> modpath" where
  "ModpathBas_init model hnoflo0 hdry0 def_face_ct0 bud_label0 def_iface0 laytyp0
                   ibound0 prsity0 prsityCB0 extension0 unitnumber =
     (let self = Package_init model extension0 ''MPBAS'' unitnumber blank
      in case mf model of
           None \<Rightarrow> Inl AttributeError
         | Some m \<Rightarrow>
            (case nrow_ncol_nlay_nper m of (nrow0, ncol0, nlay0, nper0) \<Rightarrow>
             (case getitem (unit_number self) 0 of
                Inl e \<Rightarrow> Inl e
              | Inr locat \<Rightarrow>
                 (let self = self\<lparr>heading1 := ''# MPBAS for Modpath, generated by Flopy.'',
                                  heading2 := ''#'',
                                  hnoflo := hnoflo0, hdry := hdry0,
                                  def_face_ct := def_face_ct0,
                                  bud_label := bud_label0, def_iface := def_iface0,
                                  laytyp := laytyp0,
                                  ibound :=
                                    Util3d (nlay0, nrow0, ncol0) np_int32 ibound0 ''ibound'' locat,
                                  prsity :=
                                    Util3d (nlay0, nrow0, ncol0) np_float32 prsity0 ''prsity'' locat,
                                  prsityCB :=
                                    Util3d (nlay0, nrow0, ncol0) np_float32 prsityCB0
                                      ''prsityCB'' locat\<rparr>
                  in Inr (self, add_package model self)))))"

subsection \<open>Writing the file\<close>

text \<open>The loop of lines 116 to 118 over \<open>range(def_face_ct)\<close>: the label is subscripted,
  formatted and written before the face code is subscripted.\<close>

fun write_faces ::
  "labels \<Rightarrow> ifaces \<Rightarrow> string \<Rightarrow> nat list \<Rightarrow> world \<Rightarrow> (error + unit) \<times> world" where
  "write_faces bl di f_bas [] w = (Inr (), w)"
| "write_faces bl di f_bas (i # rest) w =
     (case bud_label_getitem bl i of
        Inl e \<Rightarrow> (Inl e, w)
      | Inr s \<Rightarrow>
         (let w1 = fwrite w f_bas (format_s 20 s @ nl)
          in case def_iface_getitem di i of
               Inl e \<Rightarrow> (Inl e, w1)
             | Inr c \<Rightarrow> write_faces bl di f_bas rest (fwrite w1 f_bas (format_d 2 c @ nl))))"

text \<open>\<open>Util2d(self.parent, (nlay,), np.int32, v, name='bas - laytype',
  locat=self.unit_number[0])\<close>, as each of the three branches builds it from the array
  \<open>v\<close> it has read.\<close>

definition laytype_util2d :: "modpath_bas \<Rightarrow> nat \<Rightarrow> int list \<Rightarrow> error + util2d" where
  "laytype_util2d self nlay0 v =
     (case getitem (unit_number self) 0 of
        Inl e \<Rightarrow> Inl e
      | Inr locat \<Rightarrow> Util2d nlay0 np_int32 v ''bas - laytype'' locat)"

text \<open>Lines 121 to 137: the three probes, in the order of the source. The result is the
  local \<open>lc\<close>; it is \<open>None\<close> when no branch assigned it.\<close>

definition flow_package_lc :: "modpath_bas \<Rightarrow> modflow \<Rightarrow> nat \<Rightarrow> error + util2d option" where
  "flow_package_lc self m nlay0 =
     (case get_package m ''BCF6'' of
        Some flow_package \<Rightarrow>
          (case laycon_get_value flow_package of
             Inl e \<Rightarrow> Inl e
           | Inr v \<Rightarrow> map_sum id Some (laytype_util2d self nlay0 v))
      | None \<Rightarrow>
          (case get_package m ''LPF'' of
             Some flow_package \<Rightarrow>
               (case laytyp_get_value flow_package of
                  Inl e \<Rightarrow> Inl e
                | Inr v \<Rightarrow> map_sum id Some (laytype_util2d self nlay0 v))
           | None \<Rightarrow>
               (case get_package m ''UPW'' of
                  Some flow_package \<Rightarrow>
                    (case laytyp_get_value flow_package of
                       Inl e \<Rightarrow> Inl e
                     | Inr v \<Rightarrow> map_sum id Some (laytype_util2d self nlay0 v))
                | None \<Rightarrow> Inr None)))"

text \<open>Lines 139 to 148: the layer types, the three grid arrays, and the close.\<close>

definition write_arrays ::
  "array_layout \<Rightarrow> modpath_bas \<Rightarrow> string \<Rightarrow> util2d option \<Rightarrow> world \<Rightarrow> (error + unit) \<times> world" where
  "write_arrays lay self f_bas lc w =
     (case lc of
        None \<Rightarrow> (Inl UnboundLocalError, w)
      | Some lc0 \<Rightarrow>
         (case util2d_string (set_fmtin lc0 ''(40I2)'') of
            Inl e \<Rightarrow> (Inl e, w)
          | Inr s \<Rightarrow>
             (let w1 = fwrite w f_bas s;
                  w2 = fwrite w1 f_bas
                         (get_file_entry (control_record lay) (int_field lay) (ibound self));
                  w3 = fwrite w2 f_bas
                         (get_file_entry (control_record lay) (float_field lay) (prsity self));
                  w4 = fwrite w3 f_bas
                         (get_file_entry (control_record lay) (float_field lay) (prsityCB self))
              in (Inr (), fclose w4 f_bas))))"

text \<open>Lines 110 to 114: the two comment lines, the two head values, the face count.\<close>

definition write_heading :: "modpath_bas \<Rightarrow> string \<Rightarrow> world \<Rightarrow> world" where
  "write_heading self f_bas w =
     (let w1 = fwrite w f_bas (''#'' @ heading1 self @ nl @ ''#'' @ heading2 self @ nl);
          w2 = fwrite w1 f_bas
                 (format_f 16 6 (hnoflo self) @ '' '' @ format_f 16 6 (hdry self) @ nl)
      in fwrite w2 f_bas (format_d 4 (def_face_ct self) @ nl))"

text \<open>Lines 110 to 148: all that happens while the file is open.\<close>

definition write_body ::
  "array_layout \<Rightarrow> modpath_bas \<Rightarrow> modflow \<Rightarrow> nat \<Rightarrow> string \<Rightarrow> world \<Rightarrow> (error + unit) \<times> world" where
  "write_body lay self m nlay0 f_bas w0 =
     (let w1 = write_heading self f_bas w0
      in case (if 0 < def_face_ct self
               then write_faces (bud_label self) (def_iface self) f_bas
                      [0 ..< nat (def_face_ct self)] w1
               else (Inr (), w1)) of
           (Inl e, w2) \<Rightarrow> (Inl e, w2)
         | (Inr u, w2) \<Rightarrow>
            (case flow_package_lc self m nlay0 of
               Inl e \<Rightarrow> (Inl e, w2)
             | Inr lc \<Rightarrow> write_arrays lay self f_bas lc w2))"

text \<open>\<open>ModpathBas.write_file\<close>, lines 97 to 148: the grid dimensions and the DIS package
  are read from the MODFLOW model of the parent, the file is opened, and the body runs.
  No statement of the method catches an exception, so an error ends the call where it
  arises, with the file system as it is then.\<close>

definition write_file ::
  "array_layout \<Rightarrow> modpath_bas \<Rightarrow> modpath \<Rightarrow> world \<Rightarrow> (error + unit) \<times> world" where
  "write_file lay self parent w =
     (case mf parent of
        None \<Rightarrow> (Inl AttributeError, w)
      | Some m \<Rightarrow>
         (case nrow_ncol_nlay_nper m of (nrow0, ncol0, nlay0, nper0) \<Rightarrow>
          (let ModflowDis = get_package m ''DIS''
           in case open_w w (fn_path self) of
                Inl e \<Rightarrow> (Inl e, w)
              | Inr w0 \<Rightarrow> write_body lay self m nlay0 (fn_path self) w0)))"

subsection \<open>The text of the file, piece by piece\<close>

text \<open>The strings that lines 110 to 114 write, one per call of \<open>write\<close>, and their text;
  what the loop of lines 116 to 118 writes for the indices \<open>idx\<close> when both arguments are
  lists; and what lines 142 to 146 write.\<close>

definition heading_chunks :: "modpath_bas \<Rightarrow> string list" where
  "heading_chunks self =
     [''#'' @ heading1 self @ nl @ ''#'' @ heading2 self @ nl,
      format_f 16 6 (hnoflo self) @ '' '' @ format_f 16 6 (hdry self) @ nl,
      format_d 4 (def_face_ct self) @ nl]"

definition heading_lines :: "modpath_bas \<Rightarrow> string" where
  "heading_lines self =
     ''#'' @ heading1 self @ nl @ ''#'' @ heading2 self @ nl @
     format_f 16 6 (hnoflo self) @ '' '' @ format_f 16 6 (hdry self) @ nl @
     format_d 4 (def_face_ct self) @ nl"

definition face_chunks :: "string list \<Rightarrow> int list \<Rightarrow> nat list \<Rightarrow> string list" where
  "face_chunks ls cs idx =
     concat (map (\<lambda>i. [format_s 20 (ls ! i) @ nl, format_d 2 (cs ! i) @ nl]) idx)"

definition face_lines :: "string list \<Rightarrow> int list \<Rightarrow> nat list \<Rightarrow> string" where
  "face_lines ls cs idx =
     concat (map (\<lambda>i. format_s 20 (ls ! i) @ nl @ format_d 2 (cs ! i) @ nl) idx)"

definition grid_chunks :: "array_layout \<Rightarrow> modpath_bas \<Rightarrow> string list" where
  "grid_chunks lay self =
     [get_file_entry (control_record lay) (int_field lay) (ibound self),
      get_file_entry (control_record lay) (float_field lay) (prsity self),
      get_file_entry (control_record lay) (float_field lay) (prsityCB self)]"

definition grid_arrays :: "array_layout \<Rightarrow> modpath_bas \<Rightarrow> string" where
  "grid_arrays lay self =
     get_file_entry (control_record lay) (int_field lay) (ibound self) @
     get_file_entry (control_record lay) (float_field lay) (prsity self) @
     get_file_entry (control_record lay) (float_field lay) (prsityCB self)"

text \<open>The text of the default faces of an object whose labels and codes are lists (it is
  empty when the face count is not positive), the strings it is written in, and the
  condition under which the loop over the faces, if it runs at all, meets no error:
  both arguments are lists with at least \<open>def_face_ct\<close> entries.\<close>

definition faces_chunks :: "modpath_bas \<Rightarrow> string list" where
  "faces_chunks self =
     (case (bud_label self, def_iface self) of
        (Labels ls, Ifaces cs) \<Rightarrow>
          (if 0 < def_face_ct self then face_chunks ls cs [0 ..< nat (def_face_ct self)] else [])
      | _ \<Rightarrow> [])"

definition faces_text :: "modpath_bas \<Rightarrow> string" where
  "faces_text self =
     (case (bud_label self, def_iface self) of
        (Labels ls, Ifaces cs) \<Rightarrow>
          (if 0 < def_face_ct self then face_lines ls cs [0 ..< nat (def_face_ct self)] else [])
      | _ \<Rightarrow> [])"

definition faces_listed :: "modpath_bas \<Rightarrow> bool" where
  "faces_listed self =
     (def_face_ct self \<le> 0 \<or>
      (case (bud_label self, def_iface self) of
         (Labels ls, Ifaces cs) \<Rightarrow>
           nat (def_face_ct self) \<le> length ls \<and> nat (def_face_ct self) \<le> length cs
       | _ \<Rightarrow> False))"

text \<open>The lines of a text, without their terminators, and line \<open>k\<close> (counted from 0) of
  the file at a path.\<close>

definition lines_of :: "string \<Rightarrow> string list" where
  "lines_of s =
     foldr (\<lambda>c ls. if c = CHR 0x0A then [] # ls
                    else (case ls of [] \<Rightarrow> [[c]] | l # r \<Rightarrow> (c # l) # r)) s []"

definition file_line :: "world \<Rightarrow> string \<Rightarrow> nat \<Rightarrow> string option" where
  "file_line w p k =
     (case files w p of
        None \<Rightarrow> None
      | Some c \<Rightarrow> (if k < length (lines_of c) then Some (lines_of c ! k) else None))"

subsection \<open>The spec's wording of the flow-package lookup\<close>

text \<open>
  The spec describes the lookup as "an ordered list of capability probes returning the
  first match", the three kinds "checked in a fixed priority order", and the value read as
  "that package's own layer-type array". These two definitions follow those words; the
  theorems compare them with what \<open>write_file\<close> does.
\<close>

definition spec_probe_order :: "string list" where
  "spec_probe_order = [''BCF6'', ''LPF'', ''UPW'']"

definition spec_first_match :: "modflow \<Rightarrow> package option" where
  "spec_first_match m =
     (case find (\<lambda>k. get_package m k \<noteq> None) spec_probe_order of
        None \<Rightarrow> None
      | Some k \<Rightarrow> get_package m k)"

fun spec_layer_array :: "package \<Rightarrow> int list option" where
  "spec_layer_array (ModflowBcf a) = Some a"
| "spec_layer_array (ModflowLpf a) = Some a"
| "spec_layer_array (ModflowUpw a) = Some a"
| "spec_layer_array _ = None"


subsection \<open>Example inputs\<close>

text \<open>A layout for the grid arrays (the array name as control line, integers in 3
  columns, floating-point values in 10 columns with 2 decimals, or in 14 columns with 10
  decimals), grids of 2 layers, 1 row and 2 columns with an LPF package, with a UPW
  package, with both a BCF6 and an LPF package and with no flow package, and a file
  system with no file in it.\<close>

definition example_layout :: array_layout where
  "example_layout =
     \<lparr>control_record = (\<lambda>name k locat. name @ nl),
      int_field = format_d 3, float_field = format_f 10 2\<rparr>"


definition example_modflow :: modflow where
  "example_modflow =
     \<lparr>nrow = 1, ncol = 2, nlay = 2, nper = 1, mf_packages = [ModflowDis, ModflowLpf [0, 1]]\<rparr>"

definition example_modflow_upw :: modflow where
  "example_modflow_upw =
     \<lparr>nrow = 1, ncol = 2, nlay = 2, nper = 1, mf_packages = [ModflowDis, ModflowUpw [1, 1]]\<rparr>"

definition example_modflow_no_flow :: modflow where
  "example_modflow_no_flow =
     \<lparr>nrow = 1, ncol = 2, nlay = 2, nper = 1, mf_packages = [ModflowDis]\<rparr>"

definition example_modflow_both :: modflow where
  "example_modflow_both =
     \<lparr>nrow = 1, ncol = 2, nlay = 2, nper = 1,
      mf_packages = [ModflowLpf [0, 1], ModflowBcf [3, 0]]\<rparr>"

definition example_model :: modpath where
  "example_model = \<lparr>mp_name = ''m'', mf = Some example_modflow, packagelist = []\<rparr>"

definition example_model_upw :: modpath where
  "example_model_upw = \<lparr>mp_name = ''m'', mf = Some example_modflow_upw, packagelist = []\<rparr>"

definition example_model_both :: modpath where
  "example_model_both = \<lparr>mp_name = ''m'', mf = Some example_modflow_both, packagelist = []\<rparr>"

definition example_model_no_flow :: modpath where
  "example_model_no_flow =
     \<lparr>mp_name = ''m'', mf = Some example_modflow_no_flow, packagelist = []\<rparr>"

definition empty_world :: world where
  "empty_world = \<lparr>files = Map.empty, open_handles = [], refused = [], log = []\<rparr>"

text \<open>The object that \<open>ModpathBas(model, def_face_ct=n, bud_label=bl, def_iface=di,
  laytyp=lt)\<close> builds, all other arguments at their defaults, and the parent after it.\<close>

definition example_bas ::
  "modpath \<Rightarrow> int \<Rightarrow> labels \<Rightarrow> ifaces \<Rightarrow> layer_type \<Rightarrow> error + modpath_bas \<times> modpath" where
  "example_bas model n bl di lt =
     ModpathBas_init model (Finite (- 9999)) (Finite (- 8888)) n bl di lt
       (UniformValue 1) (UniformValue (py_float (3 / 10))) (UniformValue (py_float (3 / 10)))
       ''mpbas'' 86"

definition example_self :: "modpath \<Rightarrow> int \<Rightarrow> labels \<Rightarrow> ifaces \<Rightarrow> layer_type \<Rightarrow> modpath_bas" where
  "example_self model n bl di lt =
     (case example_bas model n bl di lt of Inr (self, model') \<Rightarrow> self | Inl e \<Rightarrow> blank)"

definition example_parent :: "modpath \<Rightarrow> int \<Rightarrow> labels \<Rightarrow> ifaces \<Rightarrow> layer_type \<Rightarrow> modpath" where
  "example_parent model n bl di lt =
     (case example_bas model n bl di lt of Inr (self, model') \<Rightarrow> model' | Inl e \<Rightarrow> model)"

section \<open>Properties\<close>

subsection \<open>Writes\<close>

lemma fwrites_Nil [simp]: "fwrites w p [] = w"
  by (simp add: fwrites_def)

lemma fwrites_snoc: "fwrite (fwrites w p ss) p s = fwrites w p (ss @ [s])"
  by (simp add: fwrites_def)

lemma fwrites_append: "fwrites (fwrites w p ss) p ts = fwrites w p (ss @ ts)"
  by (simp add: fwrites_def)

lemma fwrite_handles [simp]: "open_handles (fwrite w p s) = open_handles w"
  by (simp add: fwrite_def)

lemma fwrite_refused [simp]: "refused (fwrite w p s) = refused w"
  by (simp add: fwrite_def)

lemma fwrites_handles [simp]: "open_handles (fwrites w p ss) = open_handles w"
  by (induction ss rule: rev_induct) (simp_all add: fwrites_snoc [symmetric])

lemma fwrites_refused [simp]: "refused (fwrites w p ss) = refused w"
  by (induction ss rule: rev_induct) (simp_all add: fwrites_snoc [symmetric])

lemma fwrites_log: "log (fwrites w p ss) = log w @ map (Written p) ss"
  by (induction ss rule: rev_induct) (simp_all add: fwrites_snoc [symmetric] fwrite_def)

lemma fwrites_files:
  "files w p = Some c \<Longrightarrow> files (fwrites w p ss) p = Some (c @ concat ss)"
  by (induction ss rule: rev_induct) (simp_all add: fwrites_snoc [symmetric] fwrite_def)

lemma fclose_files [simp]: "files (fclose w p) = files w"
  by (simp add: fclose_def)

lemma open_w_ok: "p \<notin> set (refused w) \<Longrightarrow> \<exists>w0. open_w w p = Inr w0"
  by (simp add: open_w_def)

lemma open_w_refused: "p \<in> set (refused w) \<Longrightarrow> open_w w p = Inl IOError"
  by (simp add: open_w_def)

lemma open_w_Inr:
  assumes "open_w w p = Inr w0"
  shows "files w0 p = Some []" and "open_handles w0 = p # open_handles w"
    and "log w0 = log w @ [Opened p]" and "p \<notin> set (refused w)"
  using assms by (auto simp: open_w_def split: if_splits)

lemma open_fwrites_files:
  "open_w w p = Inr w0 \<Longrightarrow> files (fwrites w0 p ss) p = Some (concat ss)"
  using fwrites_files [OF open_w_Inr(1)] by fastforce

lemma open_fwrites_log:
  "open_w w p = Inr w0 \<Longrightarrow> log (fwrites w0 p ss) = log w @ Opened p # map (Written p) ss"
  by (simp add: fwrites_log open_w_Inr(3))

lemma write_heading_eq: "write_heading self p w = fwrites w p (heading_chunks self)"
  by (simp add: write_heading_def heading_chunks_def fwrites_def Let_def)

lemma concat_heading_chunks: "concat (heading_chunks self) = heading_lines self"
  by (simp add: heading_chunks_def heading_lines_def)

lemma concat_face_chunks: "concat (face_chunks ls cs idx) = face_lines ls cs idx"
  by (induction idx) (simp_all add: face_chunks_def face_lines_def)

lemma concat_grid_chunks: "concat (grid_chunks lay self) = grid_arrays lay self"
  by (simp add: grid_chunks_def grid_arrays_def)

lemma concat_faces_chunks: "concat (faces_chunks self) = faces_text self"
  by (simp add: faces_chunks_def faces_text_def concat_face_chunks
           split: labels.splits ifaces.splits)

subsection \<open>The loop over the default faces\<close>

lemma write_faces_lists:
  "\<forall>i\<in>set idx. i < length ls \<and> i < length cs \<Longrightarrow>
   write_faces (Labels ls) (Ifaces cs) p idx (fwrites w p ss) =
     (Inr (), fwrites w p (ss @ face_chunks ls cs idx))"
proof (induction idx arbitrary: ss)
  case Nil
  then show ?case by (simp add: face_chunks_def)
next
  case (Cons i idx)
  have rest: "\<forall>j\<in>set idx. j < length ls \<and> j < length cs"
    using Cons.prems by simp
  have "write_faces (Labels ls) (Ifaces cs) p (i # idx) (fwrites w p ss) =
        write_faces (Labels ls) (Ifaces cs) p idx
          (fwrites w p (ss @ [format_s 20 (ls ! i) @ nl, format_d 2 (cs ! i) @ nl]))"
    using Cons.prems by (simp add: getitem_def Let_def fwrites_snoc)
  also have "\<dots> = (Inr (), fwrites w p
       ((ss @ [format_s 20 (ls ! i) @ nl, format_d 2 (cs ! i) @ nl]) @ face_chunks ls cs idx))"
    by (rule Cons.IH [OF rest])
  finally show ?case by (simp add: face_chunks_def)
qed

text \<open>Whatever the loop does, it only appends to the file.\<close>

lemma write_faces_frame:
  "\<exists>ts. snd (write_faces bl di p idx (fwrites w p ss)) = fwrites w p (ss @ ts)"
proof (induction idx arbitrary: ss)
  case Nil
  have "snd (write_faces bl di p [] (fwrites w p ss)) = fwrites w p (ss @ [])" by simp
  then show ?case by blast
next
  case (Cons i idx)
  show ?case
  proof (cases "bud_label_getitem bl i")
    case (Inl e)
    then have "snd (write_faces bl di p (i # idx) (fwrites w p ss)) = fwrites w p (ss @ [])"
      by simp
    then show ?thesis by blast
  next
    case lab: (Inr l)
    show ?thesis
    proof (cases "def_iface_getitem di i")
      case (Inl e)
      with lab have "snd (write_faces bl di p (i # idx) (fwrites w p ss)) =
                     fwrites w p (ss @ [format_s 20 l @ nl])"
        by (simp add: Let_def fwrites_snoc)
      then show ?thesis by blast
    next
      case (Inr k)
      from Cons.IH [of "ss @ [format_s 20 l @ nl, format_d 2 k @ nl]"] obtain ts where
        t: "snd (write_faces bl di p idx
                  (fwrites w p (ss @ [format_s 20 l @ nl, format_d 2 k @ nl]))) =
            fwrites w p ((ss @ [format_s 20 l @ nl, format_d 2 k @ nl]) @ ts)"
        by blast
      have "snd (write_faces bl di p (i # idx) (fwrites w p ss)) =
            fwrites w p (ss @ (format_s 20 l @ nl) # (format_d 2 k @ nl) # ts)"
        using lab Inr t by (simp add: Let_def fwrites_snoc)
      then show ?thesis by blast
    qed
  qed
qed

text \<open>The step of lines 115 to 118 as \<open>write_file\<close> takes it.\<close>

lemma faces_step_listed:
  assumes "faces_listed self"
  shows "(if 0 < def_face_ct self
          then write_faces (bud_label self) (def_iface self) p
                 [0 ..< nat (def_face_ct self)] (fwrites w p ss)
          else (Inr (), fwrites w p ss)) =
         (Inr (), fwrites w p (ss @ faces_chunks self))"
proof (cases "0 < def_face_ct self")
  case False
  then show ?thesis
    by (simp add: faces_chunks_def split: labels.splits ifaces.splits)
next
  case True
  with assms obtain ls cs where l: "bud_label self = Labels ls" "def_iface self = Ifaces cs"
    and n: "nat (def_face_ct self) \<le> length ls" "nat (def_face_ct self) \<le> length cs"
    by (auto simp: faces_listed_def split: labels.splits ifaces.splits)
  have idx: "\<forall>i\<in>set [0 ..< nat (def_face_ct self)]. i < length ls \<and> i < length cs"
    using n by auto
  show ?thesis
    using True l write_faces_lists [OF idx, of p w ss] by (simp add: faces_chunks_def)
qed

lemma faces_step_frame:
  "\<exists>ts. snd (if 0 < def_face_ct self
              then write_faces (bud_label self) (def_iface self) p
                     [0 ..< nat (def_face_ct self)] (fwrites w p ss)
              else (Inr (), fwrites w p ss)) = fwrites w p (ss @ ts)"
proof (cases "0 < def_face_ct self")
  case True
  then show ?thesis using write_faces_frame [of "bud_label self" "def_iface self" p] by simp
next
  case False
  then have "snd (if 0 < def_face_ct self
              then write_faces (bud_label self) (def_iface self) p
                     [0 ..< nat (def_face_ct self)] (fwrites w p ss)
              else (Inr (), fwrites w p ss)) = fwrites w p (ss @ [])"
    by simp
  then show ?thesis by blast
qed

subsection \<open>The layout of the layer-type lines\<close>

lemma array2string_period:
  "array2string npl wd (c + npl) vs = array2string npl wd c vs"
proof (induction vs arbitrary: c)
  case Nil
  then show ?case by simp
next
  case (Cons v vs)
  have "Suc (c + npl) mod npl = Suc c mod npl" by (metis add_Suc mod_add_self2)
  moreover have "array2string npl wd (Suc (c + npl)) vs = array2string npl wd (Suc c) vs"
    using Cons.IH [of "Suc c"] by simp
  ultimately show ?case by simp
qed

lemma array2string_within_line:
  "xs \<noteq> [] \<Longrightarrow> c + length xs \<le> npl \<Longrightarrow>
   array2string npl wd c (xs @ ys) =
     concat (map (format_d wd) xs) @ (if c + length xs = npl \<or> ys = [] then nl else []) @
     array2string npl wd (c + length xs) ys"
proof (induction xs arbitrary: c)
  case Nil
  then show ?case by simp
next
  case (Cons x xs)
  show ?case
  proof (cases "xs = []")
    case True
    have "Suc c mod npl = 0 \<longleftrightarrow> Suc c = npl"
      using Cons.prems(2) by (auto simp: mod_eq_0_iff_dvd dest: dvd_imp_le)
    with True show ?thesis by simp
  next
    case False
    have lt: "Suc c < npl" using Cons.prems(2) False by (cases xs) auto
    then have "Suc c mod npl \<noteq> 0" by simp
    moreover have "array2string npl wd (Suc c) (xs @ ys) =
       concat (map (format_d wd) xs) @ (if Suc c + length xs = npl \<or> ys = [] then nl else []) @
       array2string npl wd (Suc c + length xs) ys"
      using Cons.IH [OF False, of "Suc c"] Cons.prems(2) by simp
    ultimately show ?thesis using False by simp
  qed
qed

lemma array2string_short:
  "v \<noteq> [] \<Longrightarrow> length v \<le> 40 \<Longrightarrow>
   array2string 40 2 0 v = concat (map (format_d 2) v) @ nl"
  using array2string_within_line [of v 0 40 2 "[]"] by simp

lemma array2string_full_line:
  "length xs = 40 \<Longrightarrow>
   array2string 40 2 0 (xs @ ys) = concat (map (format_d 2) xs) @ nl @ array2string 40 2 0 ys"
proof -
  assume l: "length xs = 40"
  then have "xs \<noteq> []" by auto
  from array2string_within_line [OF this, of 0 40 2 ys] l
  have "array2string 40 2 0 (xs @ ys) =
        concat (map (format_d 2) xs) @ nl @ array2string 40 2 (0 + 40) ys"
    by simp
  then show ?thesis by (simp only: array2string_period)
qed

subsection \<open>The flow-package lookup\<close>

lemma util2d_string_40I2:
  "util2d_string (set_fmtin lc ''(40I2)'') = Inr (array2string 40 2 0 (u2d_value lc))"
proof -
  have "fort_2_py ''(40I2)'' = Inr (40, 2)" by code_simp
  then show ?thesis by (simp add: util2d_string_def set_fmtin_def)
qed

lemma get_package_name: "get_package m k = Some p \<Longrightarrow> package_name p = k"
  by (auto simp: get_package_def find_Some_iff)

lemma get_package_BCF6: "get_package m ''BCF6'' = Some p \<Longrightarrow> \<exists>a. p = ModflowBcf a"
  using get_package_name [of m "''BCF6''" p] by (cases p) simp_all

lemma get_package_LPF: "get_package m ''LPF'' = Some p \<Longrightarrow> \<exists>a. p = ModflowLpf a"
  using get_package_name [of m "''LPF''" p] by (cases p) simp_all

lemma get_package_UPW: "get_package m ''UPW'' = Some p \<Longrightarrow> \<exists>a. p = ModflowUpw a"
  using get_package_name [of m "''UPW''" p] by (cases p) simp_all

lemma laytype_util2d_Inr:
  "laytype_util2d self n v = Inr lc \<Longrightarrow> length v = n \<and> u2d_value lc = map np_int32 v"
  by (auto simp: laytype_util2d_def Util2d_def split: sum.splits if_splits)

lemma laytype_util2d_ok:
  "unit_number self \<noteq> [] \<Longrightarrow> length v = n \<Longrightarrow>
   \<exists>lc. laytype_util2d self n v = Inr lc \<and> u2d_value lc = map np_int32 v"
  by (simp add: laytype_util2d_def Util2d_def getitem_def)

text \<open>The three probes of \<open>write_file\<close> against the spec's ordered list of probes.\<close>

lemma first_match_cases:
  "spec_first_match m =
     (case get_package m ''BCF6'' of
        Some p \<Rightarrow> Some p
      | None \<Rightarrow> (case get_package m ''LPF'' of
                   Some p \<Rightarrow> Some p
                 | None \<Rightarrow> get_package m ''UPW''))"
  by (simp add: spec_first_match_def spec_probe_order_def split: option.splits)

lemma flow_package_lc_eq:
  "flow_package_lc self m n =
     (case spec_first_match m of
        None \<Rightarrow> Inr None
      | Some pkg \<Rightarrow>
          (case spec_layer_array pkg of
             None \<Rightarrow> Inl AttributeError
           | Some v \<Rightarrow> map_sum id Some (laytype_util2d self n v)))"
proof (cases "get_package m ''BCF6''")
  case (Some p)
  then obtain a where "p = ModflowBcf a" using get_package_BCF6 by blast
  with Some show ?thesis by (simp add: flow_package_lc_def first_match_cases)
next
  case bcf: None
  show ?thesis
  proof (cases "get_package m ''LPF''")
    case (Some p)
    then obtain a where "p = ModflowLpf a" using get_package_LPF by blast
    with Some bcf show ?thesis by (simp add: flow_package_lc_def first_match_cases)
  next
    case lpf: None
    show ?thesis
    proof (cases "get_package m ''UPW''")
      case (Some p)
      then obtain a where "p = ModflowUpw a" using get_package_UPW by blast
      with Some bcf lpf show ?thesis by (simp add: flow_package_lc_def first_match_cases)
    next
      case None
      with bcf lpf show ?thesis by (simp add: flow_package_lc_def first_match_cases)
    qed
  qed
qed

lemma first_match_has_array:
  "spec_first_match m = Some pkg \<Longrightarrow> \<exists>v. spec_layer_array pkg = Some v"
  using get_package_BCF6 [of m pkg] get_package_LPF [of m pkg] get_package_UPW [of m pkg]
  by (auto simp: first_match_cases split: option.splits)


lemma flow_package_lc_Some:
  assumes "flow_package_lc self m n = Inr (Some lc)"
  shows "\<exists>pkg v. spec_first_match m = Some pkg \<and> spec_layer_array pkg = Some v \<and>
                 length v = n \<and> u2d_value lc = map np_int32 v"
proof -
  from assms obtain pkg v where "spec_first_match m = Some pkg" "spec_layer_array pkg = Some v"
    and "laytype_util2d self n v = Inr lc"
    by (auto simp: flow_package_lc_eq map_sum_def split: option.splits sum.splits)
  then show ?thesis using laytype_util2d_Inr by blast
qed

lemma flow_package_lc_ok:
  assumes "spec_first_match m = Some pkg" and "spec_layer_array pkg = Some v"
    and "length v = n" and "unit_number self \<noteq> []"
  shows "\<exists>lc. flow_package_lc self m n = Inr (Some lc) \<and> u2d_value lc = map np_int32 v"
proof -
  from laytype_util2d_ok [OF assms(4,3)] obtain lc where
    "laytype_util2d self n v = Inr lc" "u2d_value lc = map np_int32 v"
    by blast
  then show ?thesis using assms(1,2) by (simp add: flow_package_lc_eq)
qed


subsection \<open>The steps of \<open>write_file\<close>\<close>

lemma write_arrays_Some:
  "write_arrays lay self p (Some lc) (fwrites w p ss) =
     (Inr (), fclose (fwrites w p (ss @ array2string 40 2 0 (u2d_value lc) # grid_chunks lay self)) p)"
  by (simp add: write_arrays_def util2d_string_40I2 grid_chunks_def Let_def fwrites_snoc)

lemma write_arrays_None: "write_arrays lay self p None w = (Inl UnboundLocalError, w)"
  by (simp add: write_arrays_def)

lemma write_file_open:
  "mf parent = Some m \<Longrightarrow> open_w w (fn_path self) = Inr w0 \<Longrightarrow>
   write_file lay self parent w = write_body lay self m (nlay m) (fn_path self) w0"
  by (simp add: write_file_def nrow_ncol_nlay_nper_def Let_def)


lemma write_file_no_mf:
  "mf parent = None \<Longrightarrow> write_file lay self parent w = (Inl AttributeError, w)"
  by (simp add: write_file_def)

lemma write_file_ok_open:
  "fst (write_file lay self parent w) = Inr () \<Longrightarrow>
   \<exists>m w0. mf parent = Some m \<and> open_w w (fn_path self) = Inr w0"
  by (auto simp: write_file_def Let_def nrow_ncol_nlay_nper_def split: option.splits sum.splits)

text \<open>The body once the faces are through: either a flow package is found and its array
  has one value per layer, and all is written and the file closed; or the call fails
  with the file as the faces left it.\<close>

lemma write_body_after_faces:
  assumes "(if 0 < def_face_ct self
            then write_faces (bud_label self) (def_iface self) p
                   [0 ..< nat (def_face_ct self)] (fwrites w0 p (heading_chunks self))
            else (Inr (), fwrites w0 p (heading_chunks self))) =
           (Inr (), fwrites w0 p (heading_chunks self @ fs))"
  shows "(\<exists>lc. flow_package_lc self m n = Inr (Some lc) \<and>
               write_body lay self m n p w0 =
                 (Inr (), fclose (fwrites w0 p (heading_chunks self @ fs @
                            array2string 40 2 0 (u2d_value lc) # grid_chunks lay self)) p)) \<or>
         ((\<forall>lc. flow_package_lc self m n \<noteq> Inr (Some lc)) \<and>
          fst (write_body lay self m n p w0) \<noteq> Inr () \<and>
          snd (write_body lay self m n p w0) = fwrites w0 p (heading_chunks self @ fs))"
proof -
  have eq: "write_body lay self m n p w0 =
        (case flow_package_lc self m n of
           Inl e \<Rightarrow> (Inl e, fwrites w0 p (heading_chunks self @ fs))
         | Inr lc \<Rightarrow> write_arrays lay self p lc (fwrites w0 p (heading_chunks self @ fs)))"
    using assms by (simp add: write_body_def write_heading_eq Let_def)
  show ?thesis
  proof (cases "flow_package_lc self m n")
    case (Inl e)
    with eq show ?thesis by simp
  next
    case (Inr lc)
    show ?thesis
    proof (cases lc)
      case None
      with Inr eq show ?thesis by (simp add: write_arrays_None)
    next
      case (Some lc0)
      with Inr eq show ?thesis by (simp add: write_arrays_Some)
    qed
  qed
qed

text \<open>Every run of the body: the heading, then more writes, and the close exactly when
  the body succeeds.\<close>

lemma write_body_frame:
  "\<exists>ts. snd (write_body lay self m n p w0) =
          (if fst (write_body lay self m n p w0) = Inr ()
           then fclose (fwrites w0 p (heading_chunks self @ ts)) p
           else fwrites w0 p (heading_chunks self @ ts))"
proof -
  let ?F = "if 0 < def_face_ct self
            then write_faces (bud_label self) (def_iface self) p
                   [0 ..< nat (def_face_ct self)] (fwrites w0 p (heading_chunks self))
            else (Inr (), fwrites w0 p (heading_chunks self))"
  let ?res = "write_body lay self m n p w0"
  obtain fs where fs: "snd ?F = fwrites w0 p (heading_chunks self @ fs)"
    using faces_step_frame [of self p w0 "heading_chunks self"] by blast
  show ?thesis
  proof (cases "fst ?F")
    case (Inl e)
    then have "?F = (Inl e, fwrites w0 p (heading_chunks self @ fs))"
      using fs by (cases ?F) simp
    then have "?res = (Inl e, fwrites w0 p (heading_chunks self @ fs))"
      by (simp add: write_body_def write_heading_eq Let_def)
    then have "snd ?res = (if fst ?res = Inr ()
           then fclose (fwrites w0 p (heading_chunks self @ fs)) p
           else fwrites w0 p (heading_chunks self @ fs))"
      by simp
    then show ?thesis by blast
  next
    case (Inr u)
    then have "?F = (Inr (), fwrites w0 p (heading_chunks self @ fs))"
      using fs by (cases ?F) simp
    from write_body_after_faces [OF this, of m n lay]
    show ?thesis
    proof
      assume "\<exists>lc. flow_package_lc self m n = Inr (Some lc) \<and>
               ?res = (Inr (), fclose (fwrites w0 p (heading_chunks self @ fs @
                            array2string 40 2 0 (u2d_value lc) # grid_chunks lay self)) p)"
      then obtain lc where "flow_package_lc self m n = Inr (Some lc)"
        and "?res = (Inr (), fclose (fwrites w0 p (heading_chunks self @ fs @
                            array2string 40 2 0 (u2d_value lc) # grid_chunks lay self)) p)"
        by (elim exE conjE)
      then have "snd ?res = (if fst ?res = Inr ()
           then fclose (fwrites w0 p (heading_chunks self @
                  (fs @ array2string 40 2 0 (u2d_value lc) # grid_chunks lay self))) p
           else fwrites w0 p (heading_chunks self @
                  (fs @ array2string 40 2 0 (u2d_value lc) # grid_chunks lay self)))"
        by simp
      then show ?thesis by blast
    next
      assume "(\<forall>lc. flow_package_lc self m n \<noteq> Inr (Some lc)) \<and>
          fst ?res \<noteq> Inr () \<and> snd ?res = fwrites w0 p (heading_chunks self @ fs)"
      then have "snd ?res = (if fst ?res = Inr ()
           then fclose (fwrites w0 p (heading_chunks self @ fs)) p
           else fwrites w0 p (heading_chunks self @ fs))"
        by simp
      then show ?thesis by blast
    qed
  qed
qed

lemma write_body_ok_faces:
  assumes "fst (write_body lay self m n p w0) = Inr ()"
  shows "\<exists>fs. (if 0 < def_face_ct self
            then write_faces (bud_label self) (def_iface self) p
                   [0 ..< nat (def_face_ct self)] (fwrites w0 p (heading_chunks self))
            else (Inr (), fwrites w0 p (heading_chunks self))) =
           (Inr (), fwrites w0 p (heading_chunks self @ fs))"
proof -
  let ?F = "if 0 < def_face_ct self
            then write_faces (bud_label self) (def_iface self) p
                   [0 ..< nat (def_face_ct self)] (fwrites w0 p (heading_chunks self))
            else (Inr (), fwrites w0 p (heading_chunks self))"
  obtain fs where fs: "snd ?F = fwrites w0 p (heading_chunks self @ fs)"
    using faces_step_frame [of self p w0 "heading_chunks self"] by blast
  have "fst ?F = Inr ()"
    using assms
    by (cases ?F) (auto simp: write_body_def write_heading_eq Let_def split: sum.splits)
  with fs have "?F = (Inr (), fwrites w0 p (heading_chunks self @ fs))"
    by (cases ?F) simp
  then show ?thesis by blast
qed

subsection \<open>The whole call\<close>

lemma write_file_frame:
  assumes "mf parent = Some m" and "fn_path self \<notin> set (refused w)"
  shows "\<exists>t. files (snd (write_file lay self parent w)) (fn_path self) =
               Some (heading_lines self @ t)"
proof -
  from assms(2) obtain w0 where op: "open_w w (fn_path self) = Inr w0"
    using open_w_ok by blast
  have eq: "write_file lay self parent w = write_body lay self m (nlay m) (fn_path self) w0"
    using assms(1) op by (rule write_file_open)
  from write_body_frame [of lay self m "nlay m" "fn_path self" w0] obtain ts where
    "snd (write_body lay self m (nlay m) (fn_path self) w0) =
          (if fst (write_body lay self m (nlay m) (fn_path self) w0) = Inr ()
           then fclose (fwrites w0 (fn_path self) (heading_chunks self @ ts)) (fn_path self)
           else fwrites w0 (fn_path self) (heading_chunks self @ ts))"
    by blast
  then have "files (snd (write_file lay self parent w)) =
             files (fwrites w0 (fn_path self) (heading_chunks self @ ts))"
    using eq by (simp split: if_splits)
  then have "files (snd (write_file lay self parent w)) (fn_path self) =
             Some (heading_lines self @ concat ts)"
    by (simp add: open_fwrites_files [OF op] concat_heading_chunks)
  then show ?thesis by blast
qed

text \<open>The call when the faces meet no error: what it returns and the state it leaves.\<close>

lemma write_file_listed:
  assumes "mf parent = Some m" and "open_w w (fn_path self) = Inr w0" and "faces_listed self"
  shows "(\<exists>lc. flow_package_lc self m (nlay m) = Inr (Some lc) \<and>
               write_file lay self parent w =
                 (Inr (), fclose (fwrites w0 (fn_path self)
                            (heading_chunks self @ faces_chunks self @
                             array2string 40 2 0 (u2d_value lc) # grid_chunks lay self))
                          (fn_path self))) \<or>
         ((\<forall>lc. flow_package_lc self m (nlay m) \<noteq> Inr (Some lc)) \<and>
          fst (write_file lay self parent w) \<noteq> Inr () \<and>
          snd (write_file lay self parent w) =
            fwrites w0 (fn_path self) (heading_chunks self @ faces_chunks self))"
proof -
  have eq: "write_file lay self parent w = write_body lay self m (nlay m) (fn_path self) w0"
    using assms(1,2) by (rule write_file_open)
  show ?thesis
    unfolding eq
    by (rule write_body_after_faces [OF faces_step_listed [OF assms(3)]])
qed

lemma write_file_listed_text:
  assumes "mf parent = Some m" and "fn_path self \<notin> set (refused w)" and "faces_listed self"
  shows "\<exists>t. files (snd (write_file lay self parent w)) (fn_path self) =
               Some (heading_lines self @ faces_text self @ t) \<and>
             (if fst (write_file lay self parent w) = Inr ()
              then \<exists>pkg v. spec_first_match m = Some pkg \<and> spec_layer_array pkg = Some v \<and>
                            length v = nlay m \<and>
                            t = array2string 40 2 0 (map np_int32 v) @ grid_arrays lay self
              else t = [])"
proof -
  from assms(2) obtain w0 where op: "open_w w (fn_path self) = Inr w0"
    using open_w_ok by blast
  from write_file_listed [OF assms(1) op assms(3), of lay]
  show ?thesis
  proof
    assume "\<exists>lc. flow_package_lc self m (nlay m) = Inr (Some lc) \<and>
               write_file lay self parent w =
                 (Inr (), fclose (fwrites w0 (fn_path self)
                            (heading_chunks self @ faces_chunks self @
                             array2string 40 2 0 (u2d_value lc) # grid_chunks lay self))
                          (fn_path self))"
    then obtain lc where lc: "flow_package_lc self m (nlay m) = Inr (Some lc)"
      and r: "write_file lay self parent w =
                 (Inr (), fclose (fwrites w0 (fn_path self)
                            (heading_chunks self @ faces_chunks self @
                             array2string 40 2 0 (u2d_value lc) # grid_chunks lay self))
                          (fn_path self))"
      by (elim exE conjE)
    from flow_package_lc_Some [OF lc] obtain pkg v where
      pk: "spec_first_match m = Some pkg" "spec_layer_array pkg = Some v" "length v = nlay m"
      and v: "u2d_value lc = map np_int32 v"
      by blast
    have "files (snd (write_file lay self parent w)) (fn_path self) =
          Some (heading_lines self @ faces_text self @
                (array2string 40 2 0 (map np_int32 v) @ grid_arrays lay self))"
      by (simp add: r open_fwrites_files [OF op] concat_heading_chunks concat_faces_chunks
                    concat_grid_chunks v)
    moreover have "fst (write_file lay self parent w) = Inr ()" by (simp add: r)
    ultimately show ?thesis using pk by auto
  next
    assume a: "(\<forall>lc. flow_package_lc self m (nlay m) \<noteq> Inr (Some lc)) \<and>
          fst (write_file lay self parent w) \<noteq> Inr () \<and>
          snd (write_file lay self parent w) =
            fwrites w0 (fn_path self) (heading_chunks self @ faces_chunks self)"
    then have "files (snd (write_file lay self parent w)) (fn_path self) =
          Some (heading_lines self @ faces_text self @ [])"
      by (simp add: open_fwrites_files [OF op] concat_heading_chunks concat_faces_chunks)
    with a show ?thesis by auto
  qed
qed

subsection \<open>The example objects\<close>

lemma init_Some:
  assumes "mf model = Some m"
  shows "\<exists>self. ModpathBas_init model hnf hdr n bl di lt ib pr pc ext u =
                  Inr (self, add_package model self) \<and>
                hnoflo self = hnf \<and> hdry self = hdr \<and> def_face_ct self = n \<and>
                bud_label self = bl \<and> def_iface self = di \<and> laytyp self = lt \<and>
                ibound self = Util3d (nlay m, nrow m, ncol m) np_int32 ib ''ibound'' u \<and>
                prsity self = Util3d (nlay m, nrow m, ncol m) np_float32 pr ''prsity'' u \<and>
                prsityCB self = Util3d (nlay m, nrow m, ncol m) np_float32 pc ''prsityCB'' u \<and>
                heading1 self = ''# MPBAS for Modpath, generated by Flopy.'' \<and>
                heading2 self = ''#'' \<and> unit_number self = [u] \<and>
                fn_path self = mp_name model @ ''.'' @ ext"
  using assms
  by (simp add: ModpathBas_init_def Let_def getitem_def Package_init_def nrow_ncol_nlay_nper_def)

lemma init_Inr_fields:
  assumes "ModpathBas_init model hnf hdr n bl di lt ib pr pc ext u = Inr (self, model')"
  shows "hnoflo self = hnf" and "hdry self = hdr" and "def_face_ct self = n"
    and "bud_label self = bl" and "def_iface self = di"
    and "heading1 self = ''# MPBAS for Modpath, generated by Flopy.''" and "heading2 self = ''#''"
    and "unit_number self = [u]" and "fn_path self = mp_name model @ ''.'' @ ext"
    and "model' = add_package model self" and "mf model \<noteq> None"
  using assms
  by (auto simp: ModpathBas_init_def Let_def getitem_def Package_init_def nrow_ncol_nlay_nper_def
           split: option.splits)

lemma add_package_mf [simp]: "mf (add_package model self) = mf model"
  by (simp add: add_package_def)

lemma example_built:
  "mf model = Some m \<Longrightarrow>
   example_bas model n bl di lt =
     Inr (example_self model n bl di lt, example_parent model n bl di lt)"
  by (simp add: example_self_def example_parent_def example_bas_def ModpathBas_init_def
       Let_def getitem_def Package_init_def nrow_ncol_nlay_nper_def)

lemma example_parent_mf:
  "mf model = Some m \<Longrightarrow> mf (example_parent model n bl di lt) = Some m"
  by (simp add: example_parent_def example_bas_def ModpathBas_init_def add_package_def
       Let_def getitem_def Package_init_def nrow_ncol_nlay_nper_def)

lemma example_model_mf: "mf example_model = Some example_modflow"
  by (simp add: example_model_def)

lemma example_model_upw_mf: "mf example_model_upw = Some example_modflow_upw"
  by (simp add: example_model_upw_def)

lemma example_model_both_mf: "mf example_model_both = Some example_modflow_both"
  by (simp add: example_model_both_def)


subsection \<open>The stored layer type\<close>

lemma laytype_util2d_laytyp:
  "laytype_util2d (self\<lparr>laytyp := a\<rparr>) n v = laytype_util2d self n v"
  by (simp add: laytype_util2d_def)

lemma flow_package_lc_laytyp:
  "flow_package_lc (self\<lparr>laytyp := a\<rparr>) m n = flow_package_lc self m n"
  by (simp add: flow_package_lc_def laytype_util2d_laytyp cong: option.case_cong sum.case_cong)

lemma write_arrays_laytyp:
  "write_arrays lay (self\<lparr>laytyp := a\<rparr>) p lc w = write_arrays lay self p lc w"
  by (simp add: write_arrays_def cong: option.case_cong sum.case_cong)

lemma write_body_laytyp:
  "write_body lay (self\<lparr>laytyp := a\<rparr>) m n p w = write_body lay self m n p w"
  by (simp add: write_body_def write_heading_def flow_package_lc_laytyp write_arrays_laytyp
           Let_def cong: if_cong sum.case_cong prod.case_cong)

lemma write_file_laytyp:
  "write_file lay (self\<lparr>laytyp := a\<rparr>) parent w = write_file lay self parent w"
  by (simp add: write_file_def write_body_laytyp
           cong: option.case_cong sum.case_cong prod.case_cong)

lemma init_laytyp:
  "ModpathBas_init model hnf hdr n bl di a ib pr pc ext u = Inr (s1, m1) \<Longrightarrow>
   \<exists>m2. ModpathBas_init model hnf hdr n bl di b ib pr pc ext u = Inr (s1\<lparr>laytyp := b\<rparr>, m2)"
  by (auto simp: ModpathBas_init_def Let_def Package_init_def getitem_def nrow_ncol_nlay_nper_def
           split: option.splits)

text \<open>
  C9. Two constructions that differ only in the \<open>laytyp\<close> argument give objects for which
  \<open>write_file\<close>, on the same parent and the same file system, returns the same result and
  leaves the same files: the stored \<open>laytyp\<close> is never read by \<open>write_file\<close>.
\<close>

theorem laytyp_never_written:
  assumes "ModpathBas_init model hnf hdr n bl di a ib pr pc ext u = Inr (s1, m1)"
    and "ModpathBas_init model hnf hdr n bl di b ib pr pc ext u = Inr (s2, m2)"
  shows "write_file lay s1 parent w = write_file lay s2 parent w"
proof -
  from init_laytyp [OF assms(1), of b] assms(2) have "s2 = s1\<lparr>laytyp := b\<rparr>" by auto
  then show ?thesis by (simp add: write_file_laytyp)
qed

theorem laytyp_never_written_witness:
  "example_bas example_model 0 NoLabels NoIfaces (LayInt 0) =
     Inr (example_self example_model 0 NoLabels NoIfaces (LayInt 0),
          example_parent example_model 0 NoLabels NoIfaces (LayInt 0)) \<and>
   example_bas example_model 0 NoLabels NoIfaces (LayList [1, 3]) =
     Inr (example_self example_model 0 NoLabels NoIfaces (LayList [1, 3]),
          example_parent example_model 0 NoLabels NoIfaces (LayList [1, 3])) \<and>
   laytyp (example_self example_model 0 NoLabels NoIfaces (LayInt 0)) \<noteq>
   laytyp (example_self example_model 0 NoLabels NoIfaces (LayList [1, 3])) \<and>
   write_file example_layout (example_self example_model 0 NoLabels NoIfaces (LayInt 0))
     (example_parent example_model 0 NoLabels NoIfaces (LayInt 0)) empty_world =
   write_file example_layout (example_self example_model 0 NoLabels NoIfaces (LayList [1, 3]))
     (example_parent example_model 0 NoLabels NoIfaces (LayInt 0)) empty_world \<and>
   fst (write_file example_layout (example_self example_model 0 NoLabels NoIfaces (LayInt 0))
     (example_parent example_model 0 NoLabels NoIfaces (LayInt 0)) empty_world) = Inr ()"
proof -
  have h1: "example_bas example_model 0 NoLabels NoIfaces (LayInt 0) =
     Inr (example_self example_model 0 NoLabels NoIfaces (LayInt 0),
          example_parent example_model 0 NoLabels NoIfaces (LayInt 0))"
    by (rule example_built [OF example_model_mf])
  have h2: "example_bas example_model 0 NoLabels NoIfaces (LayList [1, 3]) =
     Inr (example_self example_model 0 NoLabels NoIfaces (LayList [1, 3]),
          example_parent example_model 0 NoLabels NoIfaces (LayList [1, 3]))"
    by (rule example_built [OF example_model_mf])
  have d: "laytyp (example_self example_model 0 NoLabels NoIfaces (LayInt 0)) \<noteq>
   laytyp (example_self example_model 0 NoLabels NoIfaces (LayList [1, 3]))"
    by code_simp
  have ok: "fst (write_file example_layout (example_self example_model 0 NoLabels NoIfaces (LayInt 0))
     (example_parent example_model 0 NoLabels NoIfaces (LayInt 0)) empty_world) = Inr ()"
    by code_simp
  from laytyp_never_written [OF h1 [unfolded example_bas_def] h2 [unfolded example_bas_def]]
  show ?thesis using h1 h2 d ok by simp
qed

subsection \<open>A face count that is not positive\<close>

lemma laytype_util2d_faces_arg:
  "laytype_util2d (self\<lparr>bud_label := bl, def_iface := di\<rparr>) n v = laytype_util2d self n v"
  by (simp add: laytype_util2d_def)

lemma flow_package_lc_faces_arg:
  "flow_package_lc (self\<lparr>bud_label := bl, def_iface := di\<rparr>) m n = flow_package_lc self m n"
  by (simp add: flow_package_lc_def laytype_util2d_faces_arg cong: option.case_cong sum.case_cong)

lemma write_arrays_faces_arg:
  "write_arrays lay (self\<lparr>bud_label := bl, def_iface := di\<rparr>) p lc w =
   write_arrays lay self p lc w"
  by (simp add: write_arrays_def cong: option.case_cong sum.case_cong)

lemma write_heading_faces_arg:
  "write_heading (self\<lparr>bud_label := bl, def_iface := di\<rparr>) p w = write_heading self p w"
  by (simp add: write_heading_def)

lemma write_body_faces_arg:
  "def_face_ct self \<le> 0 \<Longrightarrow>
   write_body lay (self\<lparr>bud_label := bl, def_iface := di\<rparr>) m n p w =
   write_body lay self m n p w"
  by (simp add: write_body_def write_heading_faces_arg flow_package_lc_faces_arg
                write_arrays_faces_arg Let_def cong: sum.case_cong)

lemma write_file_faces_arg:
  "def_face_ct self \<le> 0 \<Longrightarrow>
   write_file lay (self\<lparr>bud_label := bl, def_iface := di\<rparr>) parent w = write_file lay self parent w"
  by (simp add: write_file_def write_body_faces_arg
           cong: option.case_cong sum.case_cong prod.case_cong)

lemma faces_text_not_positive: "def_face_ct self \<le> 0 \<Longrightarrow> faces_text self = []"
  by (simp add: faces_text_def split: labels.splits ifaces.splits)

lemma faces_listed_not_positive: "def_face_ct self \<le> 0 \<Longrightarrow> faces_listed self"
  by (simp add: faces_listed_def)

text \<open>
  C10. When \<open>def_face_ct\<close> is zero or negative, \<open>write_file\<close> does not depend on
  \<open>bud_label\<close> and \<open>def_iface\<close> at all (they are never subscripted, so their absence cannot
  make the call fail), and the file holds the two comment lines, the line of the two head
  values and the face count in 4 columns, followed at once by the layer types and the grid
  arrays when the call succeeds, and by nothing when it fails: no label and no face code
  is written.
\<close>

theorem no_faces_when_count_not_positive:
  assumes "def_face_ct self \<le> 0" and "mf parent = Some m" and "fn_path self \<notin> set (refused w)"
  shows "write_file lay (self\<lparr>bud_label := bl, def_iface := di\<rparr>) parent w =
           write_file lay self parent w \<and>
         (\<exists>t. files (snd (write_file lay self parent w)) (fn_path self) =
                 Some (''#'' @ heading1 self @ nl @ ''#'' @ heading2 self @ nl @
                       format_f 16 6 (hnoflo self) @ '' '' @ format_f 16 6 (hdry self) @ nl @
                       format_d 4 (def_face_ct self) @ nl @ t) \<and>
              (if fst (write_file lay self parent w) = Inr ()
               then \<exists>v. t = array2string 40 2 0 v @ grid_arrays lay self
               else t = []))"
proof -
  from write_file_listed_text [OF assms(2,3) faces_listed_not_positive [OF assms(1)], of lay]
  obtain t where
    t1: "files (snd (write_file lay self parent w)) (fn_path self) =
           Some (heading_lines self @ faces_text self @ t)"
    and t2: "if fst (write_file lay self parent w) = Inr ()
         then \<exists>pkg v. spec_first_match m = Some pkg \<and> spec_layer_array pkg = Some v \<and>
                       length v = nlay m \<and>
                       t = array2string 40 2 0 (map np_int32 v) @ grid_arrays lay self
         else t = []"
    by blast
  have t3: "if fst (write_file lay self parent w) = Inr ()
            then \<exists>v. t = array2string 40 2 0 v @ grid_arrays lay self
            else t = []"
  proof (cases "fst (write_file lay self parent w) = Inr ()")
    case True
    have "\<exists>pkg v. spec_first_match m = Some pkg \<and> spec_layer_array pkg = Some v \<and>
                   length v = nlay m \<and>
                   t = array2string 40 2 0 (map np_int32 v) @ grid_arrays lay self"
      using t2 by (simp only: True if_True refl)
    then have "\<exists>v. t = array2string 40 2 0 v @ grid_arrays lay self" by blast
    then show ?thesis by (simp only: True if_True refl)
  next
    case False
    with t2 show ?thesis by (simp only: if_False)
  qed
  have t4: "files (snd (write_file lay self parent w)) (fn_path self) =
                 Some (''#'' @ heading1 self @ nl @ ''#'' @ heading2 self @ nl @
                       format_f 16 6 (hnoflo self) @ '' '' @ format_f 16 6 (hdry self) @ nl @
                       format_d 4 (def_face_ct self) @ nl @ t)"
    using t1 by (simp add: faces_text_not_positive [OF assms(1)] heading_lines_def)
  have "\<exists>t. files (snd (write_file lay self parent w)) (fn_path self) =
                 Some (''#'' @ heading1 self @ nl @ ''#'' @ heading2 self @ nl @
                       format_f 16 6 (hnoflo self) @ '' '' @ format_f 16 6 (hdry self) @ nl @
                       format_d 4 (def_face_ct self) @ nl @ t) \<and>
              (if fst (write_file lay self parent w) = Inr ()
               then \<exists>v. t = array2string 40 2 0 v @ grid_arrays lay self
               else t = [])"
    apply (rule exI [of _ t])
    using t4 t3 apply (intro conjI)
     apply assumption+
    done
  then show ?thesis using write_file_faces_arg [OF assms(1)] by blast
qed

theorem no_faces_when_count_not_positive_witness:
  "def_face_ct (example_self example_model 0 NoLabels NoIfaces (LayInt 0)) \<le> 0 \<and>
   mf (example_parent example_model 0 NoLabels NoIfaces (LayInt 0)) = Some example_modflow \<and>
   fn_path (example_self example_model 0 NoLabels NoIfaces (LayInt 0)) \<notin> set (refused empty_world) \<and>
   write_file example_layout
     ((example_self example_model 0 NoLabels NoIfaces (LayInt 0))
        \<lparr>bud_label := Labels [''RECHARGE''], def_iface := OneIface 6\<rparr>)
     (example_parent example_model 0 NoLabels NoIfaces (LayInt 0)) empty_world =
   write_file example_layout (example_self example_model 0 NoLabels NoIfaces (LayInt 0))
     (example_parent example_model 0 NoLabels NoIfaces (LayInt 0)) empty_world \<and>
   fst (write_file example_layout (example_self example_model 0 NoLabels NoIfaces (LayInt 0))
     (example_parent example_model 0 NoLabels NoIfaces (LayInt 0)) empty_world) = Inr () \<and>
   map_option (take 5 \<circ> lines_of)
     (files (snd (write_file example_layout (example_self example_model 0 NoLabels NoIfaces (LayInt 0))
        (example_parent example_model 0 NoLabels NoIfaces (LayInt 0)) empty_world)) ''m.mpbas'') =
     Some [''## MPBAS for Modpath, generated by Flopy.'', ''##'',
           ''    -9999.000000     -8888.000000'', ''   0'', '' 0 1'']"
proof -
  have h1: "def_face_ct (example_self example_model 0 NoLabels NoIfaces (LayInt 0)) \<le> 0"
    by code_simp
  have h2: "mf (example_parent example_model 0 NoLabels NoIfaces (LayInt 0)) = Some example_modflow"
    by (rule example_parent_mf [OF example_model_mf])
  have h3: "fn_path (example_self example_model 0 NoLabels NoIfaces (LayInt 0)) \<notin> set (refused empty_world)"
    by code_simp
  have ok: "fst (write_file example_layout (example_self example_model 0 NoLabels NoIfaces (LayInt 0))
     (example_parent example_model 0 NoLabels NoIfaces (LayInt 0)) empty_world) = Inr ()"
    by code_simp
  have ls: "map_option (take 5 \<circ> lines_of)
     (files (snd (write_file example_layout (example_self example_model 0 NoLabels NoIfaces (LayInt 0))
        (example_parent example_model 0 NoLabels NoIfaces (LayInt 0)) empty_world)) ''m.mpbas'') =
     Some [''## MPBAS for Modpath, generated by Flopy.'', ''##'',
           ''    -9999.000000     -8888.000000'', ''   0'', '' 0 1'']"
    by code_simp
  from no_faces_when_count_not_positive [OF h1 h2 h3,
      where lay = example_layout and bl = "Labels [''RECHARGE'']" and di = "OneIface 6"]
  show ?thesis using h1 h2 h3 ok ls by blast
qed

subsection \<open>The default faces\<close>

lemma faces_text_lists:
  "0 < def_face_ct self \<Longrightarrow> bud_label self = Labels ls \<Longrightarrow> def_iface self = Ifaces cs \<Longrightarrow>
   faces_text self = face_lines ls cs [0 ..< nat (def_face_ct self)]"
  by (simp add: faces_text_def)

lemma faces_listed_lists:
  "bud_label self = Labels ls \<Longrightarrow> def_iface self = Ifaces cs \<Longrightarrow>
   nat (def_face_ct self) \<le> length ls \<Longrightarrow> nat (def_face_ct self) \<le> length cs \<Longrightarrow>
   faces_listed self"
  by (simp add: faces_listed_def)

text \<open>
  C6. When \<open>def_face_ct\<close> is positive and \<open>bud_label\<close> and \<open>def_iface\<close> are lists with at
  least \<open>def_face_ct\<close> entries, the face-count line is followed by two lines for each of
  the \<open>def_face_ct\<close> entries, in order: the label left-justified in 20 columns, then the
  face code as an integer in 2 columns. With \<open>def_face_ct = 2\<close>, the labels RECHARGE and
  WELLS and the codes 6 and 1 these are 4 lines.
\<close>

theorem face_lines_in_order:
  assumes "mf parent = Some m" and "fn_path self \<notin> set (refused w)"
    and "0 < def_face_ct self"
    and "bud_label self = Labels ls" and "def_iface self = Ifaces cs"
    and "nat (def_face_ct self) \<le> length ls" and "nat (def_face_ct self) \<le> length cs"
  shows "\<exists>t. files (snd (write_file lay self parent w)) (fn_path self) =
               Some (heading_lines self @
                     concat (map (\<lambda>i. format_s 20 (ls ! i) @ nl @ format_d 2 (cs ! i) @ nl)
                                 [0 ..< nat (def_face_ct self)]) @ t) \<and>
             (if fst (write_file lay self parent w) = Inr ()
              then \<exists>v. t = array2string 40 2 0 v @ grid_arrays lay self
              else t = [])"
proof -
  from write_file_listed_text [OF assms(1,2) faces_listed_lists [OF assms(4,5,6,7)], of lay]
  obtain t where
    t1: "files (snd (write_file lay self parent w)) (fn_path self) =
           Some (heading_lines self @ faces_text self @ t)"
    and t2: "if fst (write_file lay self parent w) = Inr ()
         then \<exists>pkg v. spec_first_match m = Some pkg \<and> spec_layer_array pkg = Some v \<and>
                       length v = nlay m \<and>
                       t = array2string 40 2 0 (map np_int32 v) @ grid_arrays lay self
         else t = []"
    by blast
  have t3: "if fst (write_file lay self parent w) = Inr ()
              then \<exists>v. t = array2string 40 2 0 v @ grid_arrays lay self
              else t = []"
  proof (cases "fst (write_file lay self parent w) = Inr ()")
    case True
    have "\<exists>pkg v. spec_first_match m = Some pkg \<and> spec_layer_array pkg = Some v \<and>
                   length v = nlay m \<and>
                   t = array2string 40 2 0 (map np_int32 v) @ grid_arrays lay self"
      using t2 by (simp only: True if_True refl)
    then have "\<exists>v. t = array2string 40 2 0 v @ grid_arrays lay self" by blast
    then show ?thesis by (simp only: True if_True refl)
  next
    case False
    with t2 show ?thesis by (simp only: if_False)
  qed
  have t4: "files (snd (write_file lay self parent w)) (fn_path self) =
               Some (heading_lines self @
                     concat (map (\<lambda>i. format_s 20 (ls ! i) @ nl @ format_d 2 (cs ! i) @ nl)
                                 [0 ..< nat (def_face_ct self)]) @ t)"
    using t1 unfolding faces_text_lists [OF assms(3,4,5)] face_lines_def .
  show ?thesis
    apply (rule exI [of _ t])
    using t4 t3 apply (intro conjI)
     apply assumption+
    done
qed

theorem face_lines_in_order_witness:
  "mf (example_parent example_model 2 (Labels [''RECHARGE'', ''WELLS'']) (Ifaces [6, 1]) (LayInt 0)) =
     Some example_modflow \<and>
   fn_path (example_self example_model 2 (Labels [''RECHARGE'', ''WELLS'']) (Ifaces [6, 1]) (LayInt 0))
     \<notin> set (refused empty_world) \<and>
   0 < def_face_ct (example_self example_model 2 (Labels [''RECHARGE'', ''WELLS'']) (Ifaces [6, 1]) (LayInt 0)) \<and>
   bud_label (example_self example_model 2 (Labels [''RECHARGE'', ''WELLS'']) (Ifaces [6, 1]) (LayInt 0)) =
     Labels [''RECHARGE'', ''WELLS''] \<and>
   def_iface (example_self example_model 2 (Labels [''RECHARGE'', ''WELLS'']) (Ifaces [6, 1]) (LayInt 0)) =
     Ifaces [6, 1] \<and>
   (\<exists>t. files (snd (write_file example_layout
            (example_self example_model 2 (Labels [''RECHARGE'', ''WELLS'']) (Ifaces [6, 1]) (LayInt 0))
            (example_parent example_model 2 (Labels [''RECHARGE'', ''WELLS'']) (Ifaces [6, 1]) (LayInt 0))
            empty_world)) ''m.mpbas'' =
        Some (''## MPBAS for Modpath, generated by Flopy.'' @ nl @ ''##'' @ nl @
              ''    -9999.000000     -8888.000000'' @ nl @ ''   2'' @ nl @
              ''RECHARGE            '' @ nl @ '' 6'' @ nl @
              ''WELLS               '' @ nl @ '' 1'' @ nl @ t))"
proof -
  let ?S = "example_self example_model 2 (Labels [''RECHARGE'', ''WELLS'']) (Ifaces [6, 1]) (LayInt 0)"
  let ?P = "example_parent example_model 2 (Labels [''RECHARGE'', ''WELLS'']) (Ifaces [6, 1]) (LayInt 0)"
  have h1: "mf ?P = Some example_modflow"
    by (rule example_parent_mf [OF example_model_mf])
  have h2: "fn_path ?S \<notin> set (refused empty_world)" by code_simp
  have h3: "0 < def_face_ct ?S" by code_simp
  have h4: "bud_label ?S = Labels [''RECHARGE'', ''WELLS'']" by code_simp
  have h5: "def_iface ?S = Ifaces [6, 1]" by code_simp
  have h6: "nat (def_face_ct ?S) \<le> length [''RECHARGE'', ''WELLS'']" by code_simp
  have h7: "nat (def_face_ct ?S) \<le> length [6, 1 :: int]" by code_simp
  have p: "fn_path ?S = ''m.mpbas''" by code_simp
  have hd: "heading_lines ?S = ''## MPBAS for Modpath, generated by Flopy.'' @ nl @ ''##'' @ nl @
              ''    -9999.000000     -8888.000000'' @ nl @ ''   2'' @ nl"
    by code_simp
  have fc: "concat (map (\<lambda>i. format_s 20 ([''RECHARGE'', ''WELLS''] ! i) @ nl @
                               format_d 2 ([6, 1] ! i) @ nl) [0 ..< nat (def_face_ct ?S)]) =
            ''RECHARGE            '' @ nl @ '' 6'' @ nl @ ''WELLS               '' @ nl @ '' 1'' @ nl"
    by code_simp
  from face_lines_in_order [OF h1 h2 h3 h4 h5 h6 h7, of example_layout]
  obtain t where "files (snd (write_file example_layout ?S ?P empty_world)) (fn_path ?S) =
      Some (heading_lines ?S @
            concat (map (\<lambda>i. format_s 20 ([''RECHARGE'', ''WELLS''] ! i) @ nl @
                               format_d 2 ([6, 1] ! i) @ nl) [0 ..< nat (def_face_ct ?S)]) @ t)"
    by blast
  then have "files (snd (write_file example_layout ?S ?P empty_world)) ''m.mpbas'' =
        Some (''## MPBAS for Modpath, generated by Flopy.'' @ nl @ ''##'' @ nl @
              ''    -9999.000000     -8888.000000'' @ nl @ ''   2'' @ nl @
              ''RECHARGE            '' @ nl @ '' 6'' @ nl @
              ''WELLS               '' @ nl @ '' 1'' @ nl @ t)"
    by (simp only: p hd fc append_assoc)
  then show ?thesis using h1 h2 h3 h4 h5 by blast
qed

subsection \<open>The line of the two head values\<close>

lemma lines_of_Cons:
  "lines_of (c # s) =
     (if c = CHR 0x0A then [] # lines_of s
      else (case lines_of s of [] \<Rightarrow> [[c]] | l # r \<Rightarrow> (c # l) # r))"
  by (simp add: lines_of_def)

lemma lines_of_line:
  "CHR 0x0A \<notin> set l \<Longrightarrow> lines_of (l @ nl @ rest) = l # lines_of rest"
proof (induction l)
  case Nil
  then show ?case by (simp add: lines_of_Cons nl_def)
next
  case (Cons c l)
  then have "lines_of (l @ nl @ rest) = l # lines_of rest" and "c \<noteq> CHR 0x0A" by auto
  then show ?case by (simp add: lines_of_Cons)
qed

text \<open>
  C5 (as amended). With \<open>hnoflo = -9999.0\<close> and \<open>hdry = -8888.0\<close>, the third line of the
  file, the first after the two comment lines, is the two values, each right-justified
  in 16 columns with 6 decimals, with one space between the fields: 4 spaces before the
  first value and 5 between the two. The second line of the file is the comment \<open>##\<close>.
  This holds as soon as the file can be opened, whether the call succeeds or fails later.
\<close>

theorem head_values_on_third_line:
  assumes "ModpathBas_init model (Finite (- 9999)) (Finite (- 8888)) n bl di lt ib pr pc ext u =
             Inr (self, model')"
    and "mf parent = Some m" and "fn_path self \<notin> set (refused w)"
  shows "file_line (snd (write_file lay self parent w)) (fn_path self) 2 =
           Some ''    -9999.000000     -8888.000000'' \<and>
         file_line (snd (write_file lay self parent w)) (fn_path self) 1 = Some ''##''"
proof -
  note f = init_Inr_fields [OF assms(1)]
  have v1: "format_f 16 6 (Finite (- 9999)) = ''    -9999.000000''" by code_simp
  have v2: "format_f 16 6 (Finite (- 8888)) = ''    -8888.000000''" by code_simp
  have l1: "CHR 0x0A \<notin> set ''## MPBAS for Modpath, generated by Flopy.''" by simp
  have l2: "CHR 0x0A \<notin> set ''##''" by simp
  have l3: "CHR 0x0A \<notin> set ''    -9999.000000     -8888.000000''" by simp
  from write_file_frame [OF assms(2,3), of lay] obtain t where
    t: "files (snd (write_file lay self parent w)) (fn_path self) = Some (heading_lines self @ t)"
    by blast
  have "heading_lines self @ t =
        ''## MPBAS for Modpath, generated by Flopy.'' @ nl @ (''##'' @ nl @
          (''    -9999.000000     -8888.000000'' @ nl @ (format_d 4 n @ nl @ t)))"
    unfolding heading_lines_def f v1 v2 by simp
  then have "lines_of (heading_lines self @ t) =
        ''## MPBAS for Modpath, generated by Flopy.'' # ''##'' #
          ''    -9999.000000     -8888.000000'' # lines_of (format_d 4 n @ nl @ t)"
    by (simp only: lines_of_line [OF l1] lines_of_line [OF l2] lines_of_line [OF l3])
  then show ?thesis by (simp add: file_line_def t)
qed

theorem head_values_on_third_line_witness:
  "ModpathBas_init example_model (Finite (- 9999)) (Finite (- 8888)) 0 NoLabels NoIfaces (LayInt 0)
     (UniformValue 1) (UniformValue (py_float (3 / 10))) (UniformValue (py_float (3 / 10))) ''mpbas'' 86 =
     Inr (example_self example_model 0 NoLabels NoIfaces (LayInt 0),
          example_parent example_model 0 NoLabels NoIfaces (LayInt 0)) \<and>
   mf (example_parent example_model 0 NoLabels NoIfaces (LayInt 0)) = Some example_modflow \<and>
   fn_path (example_self example_model 0 NoLabels NoIfaces (LayInt 0)) \<notin> set (refused empty_world) \<and>
   file_line (snd (write_file example_layout (example_self example_model 0 NoLabels NoIfaces (LayInt 0))
                (example_parent example_model 0 NoLabels NoIfaces (LayInt 0)) empty_world))
     ''m.mpbas'' 2 = Some ''    -9999.000000     -8888.000000''"
proof -
  let ?S = "example_self example_model 0 NoLabels NoIfaces (LayInt 0)"
  let ?P = "example_parent example_model 0 NoLabels NoIfaces (LayInt 0)"
  have h1: "ModpathBas_init example_model (Finite (- 9999)) (Finite (- 8888)) 0 NoLabels NoIfaces
     (LayInt 0) (UniformValue 1) (UniformValue (py_float (3 / 10))) (UniformValue (py_float (3 / 10)))
     ''mpbas'' 86 = Inr (?S, ?P)"
    using example_built [OF example_model_mf, of 0 NoLabels NoIfaces "LayInt 0"]
    by (simp only: example_bas_def)
  have h2: "mf ?P = Some example_modflow" by (rule example_parent_mf [OF example_model_mf])
  have h3: "fn_path ?S \<notin> set (refused empty_world)" by code_simp
  have p: "fn_path ?S = ''m.mpbas''" by code_simp
  from head_values_on_third_line [OF h1 h2 h3, of example_layout]
  show ?thesis using h1 h2 h3 by (simp only: p) blast
qed

theorem second_line_counterexample:
  "file_line (snd (write_file example_layout (example_self example_model 0 NoLabels NoIfaces (LayInt 0))
                (example_parent example_model 0 NoLabels NoIfaces (LayInt 0)) empty_world))
     ''m.mpbas'' 1 \<noteq> Some ''     -9999.000000      -8888.000000'' \<and>
   file_line (snd (write_file example_layout (example_self example_model 0 NoLabels NoIfaces (LayInt 0))
                (example_parent example_model 0 NoLabels NoIfaces (LayInt 0)) empty_world))
     ''m.mpbas'' 2 \<noteq> Some ''     -9999.000000      -8888.000000'' \<and>
   hnoflo (example_self example_model 0 NoLabels NoIfaces (LayInt 0)) = Finite (- 9999) \<and>
   hdry (example_self example_model 0 NoLabels NoIfaces (LayInt 0)) = Finite (- 8888)"
  by code_simp

subsection \<open>No flow package: the error\<close>

text \<open>
  C1. With none of BCF6, LPF and UPW registered, no branch of lines 121 to 137 assigns
  \<open>lc\<close>, and line 139 reads it: the call ends in an \<open>UnboundLocalError\<close>, not in an error
  that names the missing flow package.
\<close>

theorem no_flow_package_unbound_local:
  "spec_first_match example_modflow_no_flow = None \<and>
   fst (write_file example_layout
          (example_self example_model_no_flow 0 NoLabels NoIfaces (LayInt 0))
          (example_parent example_model_no_flow 0 NoLabels NoIfaces (LayInt 0)) empty_world) =
     Inl UnboundLocalError"
  by code_simp

subsection \<open>The layer types\<close>

lemma write_file_first_match:
  assumes "mf parent = Some m" and "fn_path self \<notin> set (refused w)" and "faces_listed self"
    and "unit_number self \<noteq> []"
    and "spec_first_match m = Some pkg" and "spec_layer_array pkg = Some v"
    and "length v = nlay m"
  shows "fst (write_file lay self parent w) = Inr ()"
    and "files (snd (write_file lay self parent w)) (fn_path self) =
           Some (heading_lines self @ faces_text self @
                 array2string 40 2 0 (map np_int32 v) @ grid_arrays lay self)"
proof -
  from assms(2) obtain w0 where op: "open_w w (fn_path self) = Inr w0"
    using open_w_ok by blast
  from flow_package_lc_ok [OF assms(5,6,7,4)] obtain lc where
    lc: "flow_package_lc self m (nlay m) = Inr (Some lc)" "u2d_value lc = map np_int32 v"
    by blast
  from write_file_listed [OF assms(1) op assms(3), of lay] lc(1)
  obtain lc' where lc': "flow_package_lc self m (nlay m) = Inr (Some lc')"
    and r: "write_file lay self parent w =
             (Inr (), fclose (fwrites w0 (fn_path self)
                        (heading_chunks self @ faces_chunks self @
                         array2string 40 2 0 (u2d_value lc') # grid_chunks lay self))
                      (fn_path self))"
    by blast
  from lc(1) lc' have "lc' = lc" by simp
  show "fst (write_file lay self parent w) = Inr ()" by (simp add: r)
  show "files (snd (write_file lay self parent w)) (fn_path self) =
           Some (heading_lines self @ faces_text self @
                 array2string 40 2 0 (map np_int32 v) @ grid_arrays lay self)"
    by (simp add: r \<open>lc' = lc\<close> lc(2) open_fwrites_files [OF op] concat_heading_chunks
                  concat_faces_chunks concat_grid_chunks)
qed

text \<open>
  C7. \<open>write_file\<close> takes the layer types from the first package registered among BCF6,
  LPF and UPW, in this order, from that package's own array and not from the stored
  \<open>laytyp\<close>: when the file can be opened, the faces meet no error and that array has one
  value per layer, the call succeeds and the file holds, after the heading and the
  faces, the values of that array as 32-bit integers in the format \<open>(40I2)\<close>, every value
  in 2 columns, a line for every 40 values and for the rest, followed by the grid arrays.
\<close>

theorem layer_types_from_first_flow_package:
  assumes "mf parent = Some m" and "fn_path self \<notin> set (refused w)" and "faces_listed self"
    and "unit_number self \<noteq> []"
    and "spec_first_match m = Some pkg" and "spec_layer_array pkg = Some v"
    and "length v = nlay m"
  shows "fst (write_file lay self parent w) = Inr () \<and>
         files (snd (write_file lay self parent w)) (fn_path self) =
           Some (heading_lines self @ faces_text self @
                 array2string 40 2 0 (map np_int32 v) @ grid_arrays lay self) \<and>
         write_file lay (self\<lparr>laytyp := lt\<rparr>) parent w = write_file lay self parent w \<and>
         (v \<noteq> [] \<and> length v \<le> 40 \<longrightarrow>
            array2string 40 2 0 (map np_int32 v) =
              concat (map (\<lambda>x. format_d 2 (np_int32 x)) v) @ nl) \<and>
         (\<forall>xs ys. v = xs @ ys \<and> length xs = 40 \<longrightarrow>
            array2string 40 2 0 (map np_int32 v) =
              concat (map (\<lambda>x. format_d 2 (np_int32 x)) xs) @ nl @
              array2string 40 2 0 (map np_int32 ys))"
proof -
  have short: "v \<noteq> [] \<and> length v \<le> 40 \<longrightarrow>
            array2string 40 2 0 (map np_int32 v) =
              concat (map (\<lambda>x. format_d 2 (np_int32 x)) v) @ nl"
    using array2string_short [of "map np_int32 v"] by (simp add: comp_def)
  have full: "\<forall>xs ys. v = xs @ ys \<and> length xs = 40 \<longrightarrow>
            array2string 40 2 0 (map np_int32 v) =
              concat (map (\<lambda>x. format_d 2 (np_int32 x)) xs) @ nl @
              array2string 40 2 0 (map np_int32 ys)"
  proof (intro allI impI)
    fix xs ys
    assume a: "v = xs @ ys \<and> length xs = 40"
    then have "length (map np_int32 xs) = 40" by simp
    from array2string_full_line [OF this, of "map np_int32 ys"] a
    show "array2string 40 2 0 (map np_int32 v) =
              concat (map (\<lambda>x. format_d 2 (np_int32 x)) xs) @ nl @
              array2string 40 2 0 (map np_int32 ys)"
      by (simp add: comp_def)
  qed
  show ?thesis
    using write_file_first_match [OF assms, of lay] write_file_laytyp [where lay = lay and self = self and a = lt and parent = parent and w = w]
          short full
    by (intro conjI) assumption+
qed

theorem layer_types_from_first_flow_package_witness:
  "spec_first_match example_modflow = Some (ModflowLpf [0, 1]) \<and>
   fst (write_file example_layout (example_self example_model 0 NoLabels NoIfaces (LayInt 0))
          (example_parent example_model 0 NoLabels NoIfaces (LayInt 0)) empty_world) = Inr () \<and>
   files (snd (write_file example_layout (example_self example_model 0 NoLabels NoIfaces (LayInt 0))
          (example_parent example_model 0 NoLabels NoIfaces (LayInt 0)) empty_world)) ''m.mpbas'' =
     Some (heading_lines (example_self example_model 0 NoLabels NoIfaces (LayInt 0)) @
           '' 0 1'' @ nl @
           grid_arrays example_layout (example_self example_model 0 NoLabels NoIfaces (LayInt 0))) \<and>
   spec_first_match example_modflow_upw = Some (ModflowUpw [1, 1]) \<and>
   fst (write_file example_layout (example_self example_model_upw 0 NoLabels NoIfaces (LayInt 0))
          (example_parent example_model_upw 0 NoLabels NoIfaces (LayInt 0)) empty_world) = Inr () \<and>
   files (snd (write_file example_layout
          (example_self example_model_upw 0 NoLabels NoIfaces (LayInt 0))
          (example_parent example_model_upw 0 NoLabels NoIfaces (LayInt 0)) empty_world))
        ''m.mpbas'' =
     Some (heading_lines (example_self example_model_upw 0 NoLabels NoIfaces (LayInt 0)) @
           '' 1 1'' @ nl @
           grid_arrays example_layout
             (example_self example_model_upw 0 NoLabels NoIfaces (LayInt 0))) \<and>
   spec_first_match example_modflow_both = Some (ModflowBcf [3, 0]) \<and>
   fst (write_file example_layout (example_self example_model_both 0 NoLabels NoIfaces (LayInt 0))
          (example_parent example_model_both 0 NoLabels NoIfaces (LayInt 0)) empty_world) = Inr () \<and>
   files (snd (write_file example_layout
          (example_self example_model_both 0 NoLabels NoIfaces (LayInt 0))
          (example_parent example_model_both 0 NoLabels NoIfaces (LayInt 0)) empty_world))
        ''m.mpbas'' =
     Some (heading_lines (example_self example_model_both 0 NoLabels NoIfaces (LayInt 0)) @
           '' 3 0'' @ nl @
           grid_arrays example_layout
             (example_self example_model_both 0 NoLabels NoIfaces (LayInt 0)))"
proof -
  let ?S = "example_self example_model 0 NoLabels NoIfaces (LayInt 0)"
  let ?P = "example_parent example_model 0 NoLabels NoIfaces (LayInt 0)"
  let ?SU = "example_self example_model_upw 0 NoLabels NoIfaces (LayInt 0)"
  let ?PU = "example_parent example_model_upw 0 NoLabels NoIfaces (LayInt 0)"
  let ?SB = "example_self example_model_both 0 NoLabels NoIfaces (LayInt 0)"
  let ?PB = "example_parent example_model_both 0 NoLabels NoIfaces (LayInt 0)"
  have r: "fn_path ?S \<notin> set (refused empty_world)" "fn_path ?SU \<notin> set (refused empty_world)"
    "fn_path ?SB \<notin> set (refused empty_world)"
    by code_simp+
  have f: "faces_listed ?S" "faces_listed ?SU" "faces_listed ?SB" by code_simp+
  have u: "unit_number ?S \<noteq> []" "unit_number ?SU \<noteq> []" "unit_number ?SB \<noteq> []"
    by code_simp+
  have p: "fn_path ?S = ''m.mpbas''" "fn_path ?SU = ''m.mpbas''" "fn_path ?SB = ''m.mpbas''"
    by code_simp+
  have ft: "faces_text ?S = []" "faces_text ?SU = []" "faces_text ?SB = []" by code_simp+
  have m1: "spec_first_match example_modflow = Some (ModflowLpf [0, 1])" by code_simp
  have m2: "spec_first_match example_modflow_upw = Some (ModflowUpw [1, 1])" by code_simp
  have m3: "spec_first_match example_modflow_both = Some (ModflowBcf [3, 0])" by code_simp
  have a1: "spec_layer_array (ModflowLpf [0, 1]) = Some [0, 1]" by simp
  have a2: "spec_layer_array (ModflowUpw [1, 1]) = Some [1, 1]" by simp
  have a3: "spec_layer_array (ModflowBcf [3, 0]) = Some [3, 0]" by simp
  have n1: "length [0, 1 :: int] = nlay example_modflow" by code_simp
  have n2: "length [1, 1 :: int] = nlay example_modflow_upw" by code_simp
  have n3: "length [3, 0 :: int] = nlay example_modflow_both" by code_simp
  have s1: "array2string 40 2 0 (map np_int32 [0, 1]) = '' 0 1'' @ nl" by code_simp
  have s2: "array2string 40 2 0 (map np_int32 [1, 1]) = '' 1 1'' @ nl" by code_simp
  have s3: "array2string 40 2 0 (map np_int32 [3, 0]) = '' 3 0'' @ nl" by code_simp
  note t1 = layer_types_from_first_flow_package
    [OF example_parent_mf [OF example_model_mf] r(1) f(1) u(1) m1 a1 n1, of example_layout]
  note t2 = layer_types_from_first_flow_package
    [OF example_parent_mf [OF example_model_upw_mf] r(2) f(2) u(2) m2 a2 n2, of example_layout]
  note t3 = layer_types_from_first_flow_package
    [OF example_parent_mf [OF example_model_both_mf] r(3) f(3) u(3) m3 a3 n3, of example_layout]
  have c1: "fst (write_file example_layout ?S ?P empty_world) = Inr ()" using t1 by blast
  have c2: "fst (write_file example_layout ?SU ?PU empty_world) = Inr ()" using t2 by blast
  have c3: "fst (write_file example_layout ?SB ?PB empty_world) = Inr ()" using t3 by blast
  have d1: "files (snd (write_file example_layout ?S ?P empty_world)) ''m.mpbas'' =
     Some (heading_lines ?S @ '' 0 1'' @ nl @ grid_arrays example_layout ?S)"
    using conjunct1 [OF conjunct2 [OF t1]] by (simp only: p ft s1 append_Nil append_assoc)
  have d2: "files (snd (write_file example_layout ?SU ?PU empty_world)) ''m.mpbas'' =
     Some (heading_lines ?SU @ '' 1 1'' @ nl @ grid_arrays example_layout ?SU)"
    using conjunct1 [OF conjunct2 [OF t2]] by (simp only: p ft s2 append_Nil append_assoc)
  have d3: "files (snd (write_file example_layout ?SB ?PB empty_world)) ''m.mpbas'' =
     Some (heading_lines ?SB @ '' 3 0'' @ nl @ grid_arrays example_layout ?SB)"
    using conjunct1 [OF conjunct2 [OF t3]] by (simp only: p ft s3 append_Nil append_assoc)
  show ?thesis
    using m1 c1 d1 m2 c2 d2 m3 c3 d3 by (intro conjI) assumption+
qed

subsection \<open>The handle\<close>

lemma write_file_at_open:
  assumes "mf parent = Some m" and "fn_path self \<in> set (refused w)"
  shows "write_file lay self parent w = (Inl IOError, w)"
  using assms by (simp add: write_file_def open_w_refused split: prod.splits)

lemma write_file_events:
  assumes "mf parent = Some m" and "fn_path self \<notin> set (refused w)"
  shows "\<exists>ts. log (snd (write_file lay self parent w)) =
               log w @ Opened (fn_path self) #
                 map (Written (fn_path self)) (heading_chunks self @ ts) @
                 (if fst (write_file lay self parent w) = Inr ()
                  then [Closed (fn_path self)] else []) \<and>
             open_handles (snd (write_file lay self parent w)) =
               (if fst (write_file lay self parent w) = Inr ()
                then open_handles w else fn_path self # open_handles w)"
proof -
  from assms(2) obtain w0 where op: "open_w w (fn_path self) = Inr w0"
    using open_w_ok by blast
  have eq: "write_file lay self parent w = write_body lay self m (nlay m) (fn_path self) w0"
    using assms(1) op by (rule write_file_open)
  from write_body_frame [of lay self m "nlay m" "fn_path self" w0] obtain ts where
    ts: "snd (write_body lay self m (nlay m) (fn_path self) w0) =
          (if fst (write_body lay self m (nlay m) (fn_path self) w0) = Inr ()
           then fclose (fwrites w0 (fn_path self) (heading_chunks self @ ts)) (fn_path self)
           else fwrites w0 (fn_path self) (heading_chunks self @ ts))"
    by blast
  have "log (snd (write_file lay self parent w)) =
               log w @ Opened (fn_path self) #
                 map (Written (fn_path self)) (heading_chunks self @ ts) @
                 (if fst (write_file lay self parent w) = Inr ()
                  then [Closed (fn_path self)] else []) \<and>
             open_handles (snd (write_file lay self parent w)) =
               (if fst (write_file lay self parent w) = Inr ()
                then open_handles w else fn_path self # open_handles w)"
    unfolding eq ts
    by (simp add: fclose_def open_fwrites_log [OF op] open_w_Inr(2) [OF op])
  then show ?thesis by (rule exI)
qed

text \<open>
  C4. \<open>write_file\<close> opens the file after it has read the grid of the parent's model and
  before it writes anything, and closes it as its last step, on success only. A call
  that succeeds opens the handle, writes to it the heading and what follows, closes it,
  and leaves the handles as it found them. A call that fails after the open has opened
  the handle and written to it and never closes it: the handle stays open. A call that
  fails because the parent has no model, or at the open, opens nothing and leaves the
  file system as it was.
\<close>

theorem handle_opened_first_closed_last:
  "(fst (write_file lay self parent w) = Inr () \<longrightarrow>
      mf parent \<noteq> None \<and> fn_path self \<notin> set (refused w) \<and>
      (\<exists>ts. log (snd (write_file lay self parent w)) =
              log w @ Opened (fn_path self) #
                map (Written (fn_path self)) (heading_chunks self @ ts) @
                [Closed (fn_path self)]) \<and>
      open_handles (snd (write_file lay self parent w)) = open_handles w) \<and>
   (fst (write_file lay self parent w) \<noteq> Inr () \<and> mf parent \<noteq> None \<and>
    fn_path self \<notin> set (refused w) \<longrightarrow>
      (\<exists>ts. log (snd (write_file lay self parent w)) =
              log w @ Opened (fn_path self) #
                map (Written (fn_path self)) (heading_chunks self @ ts)) \<and>
      open_handles (snd (write_file lay self parent w)) = fn_path self # open_handles w) \<and>
   (mf parent = None \<longrightarrow> write_file lay self parent w = (Inl AttributeError, w)) \<and>
   (mf parent \<noteq> None \<and> fn_path self \<in> set (refused w) \<longrightarrow>
      write_file lay self parent w = (Inl IOError, w))"
proof (intro conjI impI)
  assume ok: "fst (write_file lay self parent w) = Inr ()"
  from write_file_ok_open [OF ok] obtain m w0 where
    m: "mf parent = Some m" and op: "open_w w (fn_path self) = Inr w0"
    by blast
  show "mf parent \<noteq> None" using m by simp
  show nr: "fn_path self \<notin> set (refused w)" using op by (rule open_w_Inr(4))
  from write_file_events [OF m nr, of lay] obtain ts where
    l: "log (snd (write_file lay self parent w)) =
               log w @ Opened (fn_path self) #
                 map (Written (fn_path self)) (heading_chunks self @ ts) @
                 (if fst (write_file lay self parent w) = Inr ()
                  then [Closed (fn_path self)] else [])"
    and h: "open_handles (snd (write_file lay self parent w)) =
               (if fst (write_file lay self parent w) = Inr ()
                then open_handles w else fn_path self # open_handles w)"
    by (elim exE conjE)
  from l ok have "log (snd (write_file lay self parent w)) =
              log w @ Opened (fn_path self) #
                map (Written (fn_path self)) (heading_chunks self @ ts) @
                [Closed (fn_path self)]"
    by simp
  then show "\<exists>ts. log (snd (write_file lay self parent w)) =
              log w @ Opened (fn_path self) #
                map (Written (fn_path self)) (heading_chunks self @ ts) @
                [Closed (fn_path self)]"
    by (rule exI)
  from h ok show "open_handles (snd (write_file lay self parent w)) = open_handles w"
    by simp
next
  assume a: "fst (write_file lay self parent w) \<noteq> Inr () \<and> mf parent \<noteq> None \<and>
             fn_path self \<notin> set (refused w)"
  then obtain m where m: "mf parent = Some m" by auto
  from a have nr: "fn_path self \<notin> set (refused w)" by simp
  from a have f: "fst (write_file lay self parent w) \<noteq> Inr ()" by simp
  from write_file_events [OF m nr, of lay] obtain ts where
    l: "log (snd (write_file lay self parent w)) =
               log w @ Opened (fn_path self) #
                 map (Written (fn_path self)) (heading_chunks self @ ts) @
                 (if fst (write_file lay self parent w) = Inr ()
                  then [Closed (fn_path self)] else [])"
    and h: "open_handles (snd (write_file lay self parent w)) =
               (if fst (write_file lay self parent w) = Inr ()
                then open_handles w else fn_path self # open_handles w)"
    by (elim exE conjE)
  from l f have "log (snd (write_file lay self parent w)) =
              log w @ Opened (fn_path self) #
                map (Written (fn_path self)) (heading_chunks self @ ts)"
    by simp
  then show "\<exists>ts. log (snd (write_file lay self parent w)) =
              log w @ Opened (fn_path self) #
                map (Written (fn_path self)) (heading_chunks self @ ts)"
    by (rule exI)
  from h f
  show "open_handles (snd (write_file lay self parent w)) = fn_path self # open_handles w"
    by simp
next
  assume "mf parent = None"
  then show "write_file lay self parent w = (Inl AttributeError, w)" by (rule write_file_no_mf)
next
  assume a: "mf parent \<noteq> None \<and> fn_path self \<in> set (refused w)"
  then obtain m where m: "mf parent = Some m" by auto
  from a have "fn_path self \<in> set (refused w)" by simp
  with m show "write_file lay self parent w = (Inl IOError, w)" by (rule write_file_at_open)
qed

theorem handle_opened_first_closed_last_witness:
  "fst (write_file example_layout (example_self example_model 0 NoLabels NoIfaces (LayInt 0))
          (example_parent example_model 0 NoLabels NoIfaces (LayInt 0)) empty_world) = Inr () \<and>
   (\<exists>ts. log (snd (write_file example_layout
                 (example_self example_model 0 NoLabels NoIfaces (LayInt 0))
                 (example_parent example_model 0 NoLabels NoIfaces (LayInt 0)) empty_world)) =
          Opened ''m.mpbas'' #
            map (Written ''m.mpbas'')
              (heading_chunks (example_self example_model 0 NoLabels NoIfaces (LayInt 0)) @ ts) @
            [Closed ''m.mpbas'']) \<and>
   open_handles (snd (write_file example_layout
                 (example_self example_model 0 NoLabels NoIfaces (LayInt 0))
                 (example_parent example_model 0 NoLabels NoIfaces (LayInt 0)) empty_world)) = [] \<and>
   fst (write_file example_layout (example_self example_model 1 NoLabels NoIfaces (LayInt 0))
          (example_parent example_model 1 NoLabels NoIfaces (LayInt 0)) empty_world) \<noteq> Inr () \<and>
   (\<exists>ts. log (snd (write_file example_layout
                 (example_self example_model 1 NoLabels NoIfaces (LayInt 0))
                 (example_parent example_model 1 NoLabels NoIfaces (LayInt 0)) empty_world)) =
          Opened ''m.mpbas'' #
            map (Written ''m.mpbas'')
              (heading_chunks (example_self example_model 1 NoLabels NoIfaces (LayInt 0)) @ ts)) \<and>
   open_handles (snd (write_file example_layout
                 (example_self example_model 1 NoLabels NoIfaces (LayInt 0))
                 (example_parent example_model 1 NoLabels NoIfaces (LayInt 0)) empty_world)) =
     [''m.mpbas''] \<and>
   mf \<lparr>mp_name = ''m'', mf = None, packagelist = []\<rparr> = None \<and>
   write_file example_layout (example_self example_model 0 NoLabels NoIfaces (LayInt 0))
     \<lparr>mp_name = ''m'', mf = None, packagelist = []\<rparr> empty_world =
     (Inl AttributeError, empty_world) \<and>
   ''m.mpbas'' \<in> set (refused (empty_world\<lparr>refused := [''m.mpbas'']\<rparr>)) \<and>
   write_file example_layout (example_self example_model 0 NoLabels NoIfaces (LayInt 0))
     (example_parent example_model 0 NoLabels NoIfaces (LayInt 0))
     (empty_world\<lparr>refused := [''m.mpbas'']\<rparr>) =
     (Inl IOError, empty_world\<lparr>refused := [''m.mpbas'']\<rparr>)"
proof -
  let ?S = "example_self example_model 0 NoLabels NoIfaces (LayInt 0)"
  let ?P = "example_parent example_model 0 NoLabels NoIfaces (LayInt 0)"
  let ?S1 = "example_self example_model 1 NoLabels NoIfaces (LayInt 0)"
  let ?P1 = "example_parent example_model 1 NoLabels NoIfaces (LayInt 0)"
  let ?N = "\<lparr>mp_name = ''m'', mf = None, packagelist = []\<rparr>"
  let ?R = "empty_world\<lparr>refused := [''m.mpbas'']\<rparr>"
  have p: "fn_path ?S = ''m.mpbas''" "fn_path ?S1 = ''m.mpbas''" by code_simp+
  have e: "log empty_world = []" "open_handles empty_world = []" "refused empty_world = []"
    by (simp_all add: empty_world_def)
  have ok: "fst (write_file example_layout ?S ?P empty_world) = Inr ()" by code_simp
  have ko: "fst (write_file example_layout ?S1 ?P1 empty_world) \<noteq> Inr ()" by code_simp
  have m0: "mf ?P \<noteq> None" using example_parent_mf [OF example_model_mf, of 0 NoLabels NoIfaces "LayInt 0"] by simp
  have m1: "mf ?P1 \<noteq> None" using example_parent_mf [OF example_model_mf, of 1 NoLabels NoIfaces "LayInt 0"] by simp
  have n: "mf ?N = None" by simp
  have r: "''m.mpbas'' \<in> set (refused ?R)" by simp
  note t0 = handle_opened_first_closed_last [of example_layout ?S ?P empty_world]
  note t1 = handle_opened_first_closed_last [of example_layout ?S1 ?P1 empty_world]
  note t2 = handle_opened_first_closed_last [of example_layout ?S ?N empty_world]
  note t3 = handle_opened_first_closed_last [of example_layout ?S ?P ?R]
  note s0 = mp [OF conjunct1 [OF t0] ok]
  have a0: "(\<exists>ts. log (snd (write_file example_layout ?S ?P empty_world)) =
          Opened ''m.mpbas'' # map (Written ''m.mpbas'') (heading_chunks ?S @ ts) @
            [Closed ''m.mpbas''])"
    using conjunct1 [OF conjunct2 [OF conjunct2 [OF s0]]] by (simp only: p e append_Nil)
  have b0: "open_handles (snd (write_file example_layout ?S ?P empty_world)) = []"
    using conjunct2 [OF conjunct2 [OF conjunct2 [OF s0]]] by (simp only: e)
  have h1: "fst (write_file example_layout ?S1 ?P1 empty_world) \<noteq> Inr () \<and> mf ?P1 \<noteq> None \<and>
            fn_path ?S1 \<notin> set (refused empty_world)"
    using ko m1 by (simp add: e)
  note s1 = mp [OF conjunct1 [OF conjunct2 [OF t1]] h1]
  have a1: "(\<exists>ts. log (snd (write_file example_layout ?S1 ?P1 empty_world)) =
          Opened ''m.mpbas'' # map (Written ''m.mpbas'') (heading_chunks ?S1 @ ts))"
    using conjunct1 [OF s1] by (simp only: p e append_Nil)
  have b1: "open_handles (snd (write_file example_layout ?S1 ?P1 empty_world)) = [''m.mpbas'']"
    using conjunct2 [OF s1] by (simp only: p e)
  have a2: "write_file example_layout ?S ?N empty_world = (Inl AttributeError, empty_world)"
    by (rule mp [OF conjunct1 [OF conjunct2 [OF conjunct2 [OF t2]]] n])
  have h3: "mf ?P \<noteq> None \<and> fn_path ?S \<in> set (refused ?R)"
    using m0 by (simp add: p)
  have a3: "write_file example_layout ?S ?P ?R = (Inl IOError, ?R)"
    by (rule mp [OF conjunct2 [OF conjunct2 [OF conjunct2 [OF t3]]] h3])
  show ?thesis
    using ok a0 b0 ko a1 b1 n a2 r a3 by (intro conjI) assumption+
qed

theorem handle_left_open_counterexample:
  "fst (write_file example_layout (example_self example_model 1 NoLabels NoIfaces (LayInt 0))
          (example_parent example_model 1 NoLabels NoIfaces (LayInt 0)) empty_world) = Inl TypeError \<and>
   open_handles empty_world = [] \<and>
   open_handles (snd (write_file example_layout
          (example_self example_model 1 NoLabels NoIfaces (LayInt 0))
          (example_parent example_model 1 NoLabels NoIfaces (LayInt 0)) empty_world)) =
     [''m.mpbas''] \<and>
   log (snd (write_file example_layout
          (example_self example_model 1 NoLabels NoIfaces (LayInt 0))
          (example_parent example_model 1 NoLabels NoIfaces (LayInt 0)) empty_world)) =
     [Opened ''m.mpbas'',
      Written ''m.mpbas'' (''## MPBAS for Modpath, generated by Flopy.'' @ nl @ ''##'' @ nl),
      Written ''m.mpbas'' (''    -9999.000000     -8888.000000'' @ nl),
      Written ''m.mpbas'' (''   1'' @ nl)]"
  by code_simp

subsection \<open>No flow package\<close>





subsection \<open>A face count without its labels\<close>

lemma write_faces_one_label:
  "fst (write_faces (Labels [l]) di p [0, 1] w) =
     (case di of Ifaces cs \<Rightarrow> Inl IndexError | _ \<Rightarrow> Inl TypeError)"
proof (cases di)
  case (Ifaces cs)
  then show ?thesis by (cases cs) (simp_all add: getitem_def Let_def)
qed (simp_all add: getitem_def Let_def)

lemma write_body_faces_fail:
  assumes "0 < def_face_ct self"
    and "fst (write_faces (bud_label self) (def_iface self) p [0 ..< nat (def_face_ct self)]
                (write_heading self p w0)) = Inl e"
  shows "fst (write_body lay self m n p w0) = Inl e"
  using assms
  by (cases "write_faces (bud_label self) (def_iface self) p [0 ..< nat (def_face_ct self)]
                (write_heading self p w0)")
     (simp add: write_body_def Let_def)

text \<open>
  C3. The constructor checks nothing: on a parent that has a model, construction succeeds
  whatever the face count, the labels and the face codes are. With \<open>def_face_ct = 2\<close> and
  \<open>bud_label\<close> a list of one label, whatever \<open>def_iface\<close> is, it returns the object with
  these three stored as given, and the failure comes at write time: \<open>write_file\<close>, once the
  file is open, fails with an \<open>IndexError\<close> when \<open>def_iface\<close> is a list (at the second
  label, or at the first face code of an empty list) and with a \<open>TypeError\<close> when it is
  not (at the first face code).
\<close>

theorem mismatched_labels_fail_at_write:
  assumes "mf model = Some m"
  shows "(\<exists>self model'.
            ModpathBas_init model hnf hdr 2 (Labels [l]) di lt ib pr pc ext u =
              Inr (self, model') \<and>
            def_face_ct self = 2 \<and> bud_label self = Labels [l] \<and> def_iface self = di \<and>
            (\<forall>lay w. fn_path self \<notin> set (refused w) \<longrightarrow>
                     fst (write_file lay self model' w) =
                       (case di of Ifaces cs \<Rightarrow> Inl IndexError | _ \<Rightarrow> Inl TypeError))) \<and>
         (\<forall>n' bl' di'. \<not> isl (ModpathBas_init model hnf hdr n' bl' di' lt ib pr pc ext u))"
proof
  from init_Some [OF assms, of hnf hdr 2 "Labels [l]" di lt ib pr pc ext u]
  obtain self where
    b: "ModpathBas_init model hnf hdr 2 (Labels [l]) di lt ib pr pc ext u =
          Inr (self, add_package model self)"
    and f: "def_face_ct self = 2" "bud_label self = Labels [l]" "def_iface self = di"
    by blast
  have w: "fst (write_file lay self (add_package model self) w) =
             (case di of Ifaces cs \<Rightarrow> Inl IndexError | _ \<Rightarrow> Inl TypeError)"
    if r: "fn_path self \<notin> set (refused w)" for lay w
  proof -
    from r obtain w0 where op: "open_w w (fn_path self) = Inr w0"
      using open_w_ok by blast
    have mf': "mf (add_package model self) = Some m" using assms by simp
    have eq: "write_file lay self (add_package model self) w =
              write_body lay self m (nlay m) (fn_path self) w0"
      using mf' op by (rule write_file_open)
    have idx: "[0 ..< nat 2] = [0, 1]"
      by (simp add: upt_rec)
    obtain e where e: "(case di of Ifaces cs \<Rightarrow> Inl IndexError | _ \<Rightarrow> Inl TypeError) =
                       (Inl e :: error + unit)"
      by (cases di) simp_all
    have "fst (write_faces (bud_label self) (def_iface self) (fn_path self)
                 [0 ..< nat (def_face_ct self)] (write_heading self (fn_path self) w0)) =
          Inl e"
      unfolding f idx e [symmetric] by (rule write_faces_one_label)
    then have "fst (write_body lay self m (nlay m) (fn_path self) w0) = Inl e"
      using f(1) by (intro write_body_faces_fail) simp_all
    with eq e show ?thesis by simp
  qed
  show "\<exists>self model'.
            ModpathBas_init model hnf hdr 2 (Labels [l]) di lt ib pr pc ext u =
              Inr (self, model') \<and>
            def_face_ct self = 2 \<and> bud_label self = Labels [l] \<and> def_iface self = di \<and>
            (\<forall>lay w. fn_path self \<notin> set (refused w) \<longrightarrow>
                     fst (write_file lay self model' w) =
                       (case di of Ifaces cs \<Rightarrow> Inl IndexError | _ \<Rightarrow> Inl TypeError))"
    apply (rule exI [of _ self])
    apply (rule exI [of _ "add_package model self"])
    using b f w apply (intro conjI allI impI)
        apply assumption+
    done
next
  show "\<forall>n' bl' di'. \<not> isl (ModpathBas_init model hnf hdr n' bl' di' lt ib pr pc ext u)"
  proof (intro allI)
    fix n' bl' di'
    from init_Some [OF assms, of hnf hdr n' bl' di' lt ib pr pc ext u]
    obtain self where
      "ModpathBas_init model hnf hdr n' bl' di' lt ib pr pc ext u =
          Inr (self, add_package model self)"
      by blast
    then show "\<not> isl (ModpathBas_init model hnf hdr n' bl' di' lt ib pr pc ext u)" by simp
  qed
qed

theorem mismatched_labels_fail_at_write_witness:
  "mf example_model = Some example_modflow \<and>
   example_bas example_model 2 (Labels [''RECHARGE'']) (Ifaces [6, 1]) (LayInt 0) =
     Inr (example_self example_model 2 (Labels [''RECHARGE'']) (Ifaces [6, 1]) (LayInt 0),
          example_parent example_model 2 (Labels [''RECHARGE'']) (Ifaces [6, 1]) (LayInt 0)) \<and>
   fst (write_file example_layout
          (example_self example_model 2 (Labels [''RECHARGE'']) (Ifaces [6, 1]) (LayInt 0))
          (example_parent example_model 2 (Labels [''RECHARGE'']) (Ifaces [6, 1]) (LayInt 0))
          empty_world) = Inl IndexError \<and>
   fst (write_file example_layout
          (example_self example_model 2 (Labels [''RECHARGE'']) (OneIface 6) (LayInt 0))
          (example_parent example_model 2 (Labels [''RECHARGE'']) (OneIface 6) (LayInt 0))
          empty_world) = Inl TypeError"
proof -
  let ?S = "example_self example_model 2 (Labels [''RECHARGE'']) (Ifaces [6, 1]) (LayInt 0)"
  let ?P = "example_parent example_model 2 (Labels [''RECHARGE'']) (Ifaces [6, 1]) (LayInt 0)"
  let ?S1 = "example_self example_model 2 (Labels [''RECHARGE'']) (OneIface 6) (LayInt 0)"
  let ?P1 = "example_parent example_model 2 (Labels [''RECHARGE'']) (OneIface 6) (LayInt 0)"
  have h1: "mf example_model = Some example_modflow" by (rule example_model_mf)
  have b: "example_bas example_model 2 (Labels [''RECHARGE'']) (Ifaces [6, 1]) (LayInt 0) =
           Inr (?S, ?P)"
    by (rule example_built [OF h1])
  have b1: "example_bas example_model 2 (Labels [''RECHARGE'']) (OneIface 6) (LayInt 0) =
           Inr (?S1, ?P1)"
    by (rule example_built [OF h1])
  have r: "fn_path ?S \<notin> set (refused empty_world)" by code_simp
  have r1: "fn_path ?S1 \<notin> set (refused empty_world)" by code_simp
  from conjunct1 [OF mismatched_labels_fail_at_write [OF h1, of "Finite (- 9999)"
         "Finite (- 8888)" "''RECHARGE''" "Ifaces [6, 1]" "LayInt 0" "UniformValue 1"
         "UniformValue (py_float (3 / 10))" "UniformValue (py_float (3 / 10))" "''mpbas''" 86]]
  obtain self model' where
    i: "ModpathBas_init example_model (Finite (- 9999)) (Finite (- 8888)) 2 (Labels [''RECHARGE''])
          (Ifaces [6, 1]) (LayInt 0) (UniformValue 1) (UniformValue (py_float (3 / 10)))
          (UniformValue (py_float (3 / 10))) ''mpbas'' 86 = Inr (self, model')"
    and a: "\<forall>lay w. fn_path self \<notin> set (refused w) \<longrightarrow>
                    fst (write_file lay self model' w) =
                      (case Ifaces [6, 1] of Ifaces cs \<Rightarrow> Inl IndexError | _ \<Rightarrow> Inl TypeError)"
    by (elim exE conjE)
  from i b have "self = ?S" "model' = ?P" by (simp_all add: example_bas_def)
  with a r have c: "fst (write_file example_layout ?S ?P empty_world) = Inl IndexError" by simp
  from conjunct1 [OF mismatched_labels_fail_at_write [OF h1, of "Finite (- 9999)"
         "Finite (- 8888)" "''RECHARGE''" "OneIface 6" "LayInt 0" "UniformValue 1"
         "UniformValue (py_float (3 / 10))" "UniformValue (py_float (3 / 10))" "''mpbas''" 86]]
  obtain self1 model1 where
    i1: "ModpathBas_init example_model (Finite (- 9999)) (Finite (- 8888)) 2 (Labels [''RECHARGE''])
          (OneIface 6) (LayInt 0) (UniformValue 1) (UniformValue (py_float (3 / 10)))
          (UniformValue (py_float (3 / 10))) ''mpbas'' 86 = Inr (self1, model1)"
    and a1: "\<forall>lay w. fn_path self1 \<notin> set (refused w) \<longrightarrow>
                    fst (write_file lay self1 model1 w) =
                      (case OneIface 6 of Ifaces cs \<Rightarrow> Inl IndexError | _ \<Rightarrow> Inl TypeError)"
    by (elim exE conjE)
  from i1 b1 have "self1 = ?S1" "model1 = ?P1" by (simp_all add: example_bas_def)
  with a1 r1 have c1: "fst (write_file example_layout ?S1 ?P1 empty_world) = Inl TypeError"
    by simp
  show ?thesis
    using h1 b c c1 by (intro conjI) assumption+
qed

theorem construction_succeeds_counterexample:
  "\<not> isl (example_bas example_model 2 (Labels [''RECHARGE'']) (Ifaces [6, 1]) (LayInt 0)) \<and>
   def_face_ct (example_self example_model 2 (Labels [''RECHARGE'']) (Ifaces [6, 1]) (LayInt 0)) = 2 \<and>
   bud_label (example_self example_model 2 (Labels [''RECHARGE'']) (Ifaces [6, 1]) (LayInt 0)) =
     Labels [''RECHARGE'']"
  by code_simp

subsection \<open>Scalar inputs for the grid arrays\<close>








end
